theory Spec2Isabelle
  imports Main "HOL-Library.Char_ord" "HOL-Library.List_Lexorder"
begin

section \<open>JavaScript values\<close>

text \<open>
  The values the modelled functions receive and return. A request body is parsed JSON, so
  it holds \<open>null\<close>, booleans, numbers, strings, arrays and objects; an object built in
  the program may also hold \<open>undefined\<close>. An object is the list of its own enumerable
  properties in insertion order (a JavaScript object has no two properties of one name;
  on a list that repeats a key the first binding is the property). Numbers are the
  integer-valued ones, printed in decimal as \<open>Number.prototype.toString\<close> prints every
  safe integer (magnitude below \<open>2^53\<close>); the digits JavaScript gives to a larger
  number are not followed, and nothing below depends on them. \<open>JFunction f\<close> is a built-in function named
  \<open>f\<close> and \<open>JObjectPrototype\<close> is the object \<open>Object.prototype\<close>: both are
  reached through the prototype chain of every object literal.
\<close>

datatype jsval =
    JUndefined
  | JNull
  | JBool bool
  | JNum int
  | JStr string
  | JArr "jsval list"
  | JObj "(string \<times> jsval) list"
  | JFunction string
  | JObjectPrototype

text \<open>\<open>ToBoolean\<close>: what \<open>!x\<close> and \<open>x || y\<close> test.\<close>

fun truthy :: "jsval \<Rightarrow> bool" where
  "truthy JUndefined = False"
| "truthy JNull = False"
| "truthy (JBool b) = b"
| "truthy (JNum n) = (n \<noteq> 0)"
| "truthy (JStr s) = (s \<noteq> [])"
| "truthy (JArr xs) = True"
| "truthy (JObj ps) = True"
| "truthy (JFunction f) = True"
| "truthy JObjectPrototype = True"

text \<open>
  The own properties of \<open>Object.prototype\<close> that are functions. Its one other property,
  the accessor \<open>__proto__\<close>, is handled where properties are read.
\<close>

definition Object_prototype_functions :: "(string \<times> jsval) list" where
  "Object_prototype_functions =
     [(''constructor'', JFunction ''Object''),
      (''__defineGetter__'', JFunction ''__defineGetter__''),
      (''__defineSetter__'', JFunction ''__defineSetter__''),
      (''hasOwnProperty'', JFunction ''hasOwnProperty''),
      (''__lookupGetter__'', JFunction ''__lookupGetter__''),
      (''__lookupSetter__'', JFunction ''__lookupSetter__''),
      (''isPrototypeOf'', JFunction ''isPrototypeOf''),
      (''propertyIsEnumerable'', JFunction ''propertyIsEnumerable''),
      (''toString'', JFunction ''toString''),
      (''valueOf'', JFunction ''valueOf''),
      (''toLocaleString'', JFunction ''toLocaleString'')]"

text \<open>
  \<open>inherited P\<close> is what reading property \<open>P\<close> gives on an ordinary object that has
  no own property \<open>P\<close>: the lookup goes on in \<open>Object.prototype\<close>, whose
  \<open>__proto__\<close> getter returns the prototype of the object read, \<open>Object.prototype\<close>
  itself.
\<close>

definition inherited :: "string \<Rightarrow> jsval" where
  "inherited P =
     (if P = ''__proto__'' then JObjectPrototype
      else case map_of Object_prototype_functions P of
             Some f \<Rightarrow> f
           | None \<Rightarrow> JUndefined)"

text \<open>\<open>Get props P\<close> is \<open>o[P]\<close> for the ordinary object \<open>o\<close> with own properties \<open>props\<close>.\<close>

definition Get :: "(string \<times> jsval) list \<Rightarrow> string \<Rightarrow> jsval" where
  "Get props P = (case map_of props P of Some v \<Rightarrow> v | None \<Rightarrow> inherited P)"

text \<open>
  Decimal printing of an integer, as \<open>ToString\<close> for a safe integer.
  \<open>digit_char d\<close> is the digit of value \<open>d\<close>, for \<open>d\<close> below 16.
\<close>

definition digit_char :: "nat \<Rightarrow> char" where
  "digit_char d = ''0123456789abcdef'' ! d"

function string_of_nat :: "nat \<Rightarrow> string" where
  "string_of_nat n =
     (if n < 10 then [digit_char n]
      else string_of_nat (n div 10) @ [digit_char (n mod 10)])"
  by pat_completeness auto
termination
  by (relation "measure id") auto

declare string_of_nat.simps [simp del]

definition Number_toString :: "int \<Rightarrow> string" where
  "Number_toString n =
     (if n < 0 then CHR ''-'' # string_of_nat (nat (- n)) else string_of_nat (nat n))"

section \<open>Status codec\<close>

text \<open>
  \<open>mapStatusToInt\<close> and \<open>mapStatusToString\<close> of the booking endpoints. Each builds
  an object literal and reads a property of it by the argument; the literal's prototype
  is \<open>Object.prototype\<close>, so the read also finds inherited properties.
\<close>

definition statusMap_int :: "(string \<times> jsval) list" where
  "statusMap_int =
     [(''Pending'', JNum 1),
      (''Confirmed'', JNum 2),
      (''In Transit'', JNum 3),
      (''Delivered'', JNum 4),
      (''Cancelled'', JNum 5)]"

definition mapStatusToInt :: "jsval \<Rightarrow> jsval" where
  "mapStatusToInt statusString =
     (case statusString of
        JNum n \<Rightarrow> JNum n
      | JStr s \<Rightarrow>
          (let v = Get statusMap_int s in if truthy v then v else JNum 1)
      | _ \<Rightarrow> JNum 1)"

definition statusMap_string :: "(string \<times> jsval) list" where
  "statusMap_string =
     [(''1'', JStr ''Pending''),
      (''2'', JStr ''Confirmed''),
      (''3'', JStr ''In Transit''),
      (''4'', JStr ''Delivered''),
      (''5'', JStr ''Cancelled'')]"

text \<open>
  The argument of \<open>mapStatusToString\<close> is the \<open>status\<close> column of a booking row, a
  number; the property key is its decimal string.
\<close>

definition mapStatusToString :: "int \<Rightarrow> jsval" where
  "mapStatusToString statusInt =
     (let v = Get statusMap_string (Number_toString statusInt)
      in if truthy v then v else JStr ''Pending'')"

section \<open>Packing-list attestation\<close>

subsection \<open>The signing secret\<close>

text \<open>
  \<open>process.env\<close> is a map from variable names to strings. The constant is
  \<open>process.env.VPL_SECRET_KEY || '...'\<close>: an unset variable and the empty string are
  both falsy.
\<close>

definition default_secret :: string where
  "default_secret = ''your-super-secret-vpl-key-change-this-in-production''"

definition VPL_SECRET_KEY :: "(string \<rightharpoonup> string) \<Rightarrow> string" where
  "VPL_SECRET_KEY env =
     (case env ''VPL_SECRET_KEY'' of
        None \<Rightarrow> default_secret
      | Some s \<Rightarrow> if s \<noteq> [] then s else default_secret)"

subsection \<open>JSON.stringify with an array replacer\<close>

text \<open>
  \<open>QuoteJSONString\<close>: the string in double quotes, with the quote, the backslash and
  the control characters escaped.
\<close>

definition quote_char :: "char \<Rightarrow> string" where
  "quote_char c =
     (if c = CHR 0x08 then [CHR 0x5C, CHR ''b'']
      else if c = CHR 0x09 then [CHR 0x5C, CHR ''t'']
      else if c = CHR 0x0A then [CHR 0x5C, CHR ''n'']
      else if c = CHR 0x0C then [CHR 0x5C, CHR ''f'']
      else if c = CHR 0x0D then [CHR 0x5C, CHR ''r'']
      else if c = CHR 0x22 then [CHR 0x5C, CHR 0x22]
      else if c = CHR 0x5C then [CHR 0x5C, CHR 0x5C]
      else if (of_char c :: nat) < 32
        then [CHR 0x5C, CHR ''u'', CHR ''0'', CHR ''0'',
              digit_char ((of_char c :: nat) div 16), digit_char ((of_char c :: nat) mod 16)]
      else [c])"

definition QuoteJSONString :: "string \<Rightarrow> string" where
  "QuoteJSONString s = CHR 0x22 # concat (map quote_char s) @ [CHR 0x22]"

text \<open>The pieces of an array or object, separated by commas (no indentation is asked for).\<close>

fun join_comma :: "string list \<Rightarrow> string" where
  "join_comma [] = []"
| "join_comma [x] = x"
| "join_comma (x # y # ys) = x @ CHR '','' # join_comma (y # ys)"

text \<open>
  \<open>SerializeJSONProperty K v\<close> is the text of the value \<open>v\<close> when the replacer is the
  array \<open>K\<close>, or \<open>None\<close> where the algorithm returns \<open>undefined\<close>. With an array
  replacer the property list \<open>K\<close> is used for every object, at every depth: for each
  \<open>P\<close> of \<open>K\<close> in turn the object's property \<open>P\<close> is read (through the
  prototype chain) and written when its text is defined; a property whose name is not in
  \<open>K\<close> is never written. An array writes each element, \<open>null\<close> for an undefined
  one. A function has no text. \<open>Object.prototype\<close> has, of all names, only
  \<open>__proto__\<close> with a value that has a text (\<open>null\<close>).
\<close>

definition member :: "string \<Rightarrow> string option \<Rightarrow> string option" where
  "member P strP = (case strP of None \<Rightarrow> None | Some s \<Rightarrow> Some (QuoteJSONString P @ CHR '':'' # s))"

text \<open>A property value is smaller than the object that holds it.\<close>

lemma map_of_size_jsval:
  "map_of props P = Some v \<Longrightarrow> size v < Suc (size_list (size_prod (\<lambda>x. 0) size) props)"
  by (induction props) (auto split: if_splits)

function SerializeJSONProperty :: "string list \<Rightarrow> jsval \<Rightarrow> string option" where
  "SerializeJSONProperty K JUndefined = None"
| "SerializeJSONProperty K JNull = Some ''null''"
| "SerializeJSONProperty K (JBool b) = Some (if b then ''true'' else ''false'')"
| "SerializeJSONProperty K (JNum n) = Some (Number_toString n)"
| "SerializeJSONProperty K (JStr s) = Some (QuoteJSONString s)"
| "SerializeJSONProperty K (JFunction f) = None"
| "SerializeJSONProperty K JObjectPrototype =
     Some (CHR ''{'' #
       join_comma (List.map_filter
         (\<lambda>P. member P (if P = ''__proto__'' then Some ''null'' else None)) K)
       @ ''}'')"
| "SerializeJSONProperty K (JArr xs) =
     Some (CHR ''['' #
       join_comma (map
         (\<lambda>x. case SerializeJSONProperty K x of None \<Rightarrow> ''null'' | Some s \<Rightarrow> s) xs)
       @ '']'')"
| "SerializeJSONProperty K (JObj props) =
     Some (CHR ''{'' #
       join_comma (List.map_filter
         (\<lambda>P. member P
            (case map_of props P of
               Some v \<Rightarrow> SerializeJSONProperty K v
             | None \<Rightarrow>
                 (if P = ''__proto__''
                  then Some (CHR ''{'' # QuoteJSONString ''__proto__'' @ '':null}'')
                  else None))) K)
       @ ''}'')"
  by pat_completeness auto

termination
  by (relation "measure (\<lambda>(K, v). size v)")
     (auto simp: less_Suc_eq_le size_list_estimation' dest!: map_of_size_jsval)


subsection \<open>Generating and verifying the seal\<close>

text \<open>
  A packing list is an object, given by its own properties. \<open>{...o}\<close> copies them;
  \<open>delete o.P\<close> removes property \<open>P\<close>; \<open>{...o, P: v}\<close> overwrites \<open>P\<close> in
  place or adds it last. \<open>Object.keys\<close> lists the names of the own properties; the order
  in which it lists them does not matter here, since the list is sorted at once.
  \<open>Array.prototype.sort\<close> without a comparator orders strings by their code units,
  which is the lexicographic order on lists of characters.
\<close>

definition delete_property :: "(string \<times> jsval) list \<Rightarrow> string \<Rightarrow> (string \<times> jsval) list" where
  "delete_property props P = filter (\<lambda>kv. fst kv \<noteq> P) props"

fun set_property :: "(string \<times> jsval) list \<Rightarrow> string \<Rightarrow> jsval \<Rightarrow> (string \<times> jsval) list" where
  "set_property [] P v = [(P, v)]"
| "set_property (kv # props) P v =
     (if fst kv = P then (P, v) # props else kv # set_property props P v)"

definition Object_keys :: "(string \<times> jsval) list \<Rightarrow> string list" where
  "Object_keys props = remdups (map fst props)"

text \<open>
  \<open>JSON.stringify(value, replacer)\<close> with an array of distinct strings as replacer:
  the array is the property list, and the value itself is written whatever its name.
\<close>

definition JSON_stringify :: "jsval \<Rightarrow> string list \<Rightarrow> string option" where
  "JSON_stringify v replacer = SerializeJSONProperty replacer v"

text \<open>
  The keyed digest \<open>crypto.createHmac('sha256', key).update(data).digest('hex')\<close> belongs
  to the platform, not to this program: it is the parameter \<open>hmac\<close>, a function of the
  key and the data. \<open>update\<close> throws a \<open>TypeError\<close> when the data is
  \<open>undefined\<close>, and \<open>generateSecurityHash\<close> rethrows what it catches.
\<close>

datatype js_error = TypeError

definition dataString :: "(string \<times> jsval) list \<Rightarrow> string option" where
  "dataString packingListData =
     (let cleanData = delete_property packingListData ''securityHash''
      in JSON_stringify (JObj cleanData) (sort (Object_keys cleanData)))"

definition generateSecurityHash ::
    "(string \<Rightarrow> string \<Rightarrow> string) \<Rightarrow> (string \<rightharpoonup> string) \<Rightarrow> (string \<times> jsval) list
      \<Rightarrow> js_error + string" where
  "generateSecurityHash hmac env packingListData =
     (case dataString packingListData of
        None \<Rightarrow> Inl TypeError
      | Some s \<Rightarrow> Inr (hmac (VPL_SECRET_KEY env) s))"

text \<open>
  The result of \<open>verifySecurityHash\<close>: \<open>{isValid, uploadedHash, calculatedHash}\<close>, or
  \<open>{isValid: false, error}\<close> from the \<open>catch\<close>. The log line between the
  comparison and the \<open>return\<close> calls \<open>uploadedHash?.substring\<close>, which throws
  when the uploaded value is neither nullish nor a string.
\<close>

datatype verification =
    Verification bool jsval string
  | VerificationError js_error

fun isValid :: "verification \<Rightarrow> bool" where
  "isValid (Verification b uploadedHash calculatedHash) = b"
| "isValid (VerificationError e) = False"

definition verifySecurityHash ::
    "(string \<Rightarrow> string \<Rightarrow> string) \<Rightarrow> (string \<rightharpoonup> string) \<Rightarrow> (string \<times> jsval) list
      \<Rightarrow> verification" where
  "verifySecurityHash hmac env packingListData =
     (let uploadedHash = Get packingListData ''securityHash''
      in case generateSecurityHash hmac env packingListData of
           Inl e \<Rightarrow> VerificationError e
         | Inr calculatedHash \<Rightarrow>
             (let valid = (uploadedHash = JStr calculatedHash)
              in case uploadedHash of
                   JStr s \<Rightarrow> Verification valid uploadedHash calculatedHash
                 | JNull \<Rightarrow> Verification valid uploadedHash calculatedHash
                 | JUndefined \<Rightarrow> Verification valid uploadedHash calculatedHash
                 | _ \<Rightarrow> VerificationError TypeError))"

text \<open>
  \<open>reordered v w\<close>: the values \<open>v\<close> and \<open>w\<close> are the same but for the order in
  which the properties of their objects, at any depth, were inserted.
\<close>

inductive reordered :: "jsval \<Rightarrow> jsval \<Rightarrow> bool" where
  same: "reordered v v"
| arrays: "list_all2 reordered xs ys \<Longrightarrow> reordered (JArr xs) (JArr ys)"
| objects:
    "set (map fst ps) = set (map fst qs) \<Longrightarrow>
     (\<forall>k \<in> set (map fst ps). \<exists>v w. map_of ps k = Some v \<and> map_of qs k = Some w \<and> reordered v w) \<Longrightarrow>
     reordered (JObj ps) (JObj qs)"


section \<open>Milestone engine\<close>

subsection \<open>Stored rows\<close>

text \<open>
  The four tables the milestone endpoints read and write, with the columns of the
  \<open>CREATE TABLE\<close> statements. Of \<open>orders\<close> and \<open>poinvoice\<close> only the key and the
  columns these endpoints write are kept; they write no other. A column declared
  \<open>NOT NULL\<close> holds a value, a nullable one an option. A timestamp is a number.
\<close>

type_synonym timestamp = int

record order =
  orderid :: int
  orderstatus :: string

record invoice =
  poinvoiceid :: int
  invoice_orderid :: int
  expectedstockstatus :: string
  invoice_updatedat :: timestamp

record milestone =
  milestoneid :: int
  milestone_orderid :: int
  milestone_userid :: int
  milestonetype :: string
  status :: string
  title :: string
  description :: "string option"
  duedate :: "timestamp option"
  completeddate :: "timestamp option"
  completedbyuserid :: "int option"
  priority :: string
  isvisible :: bool
  milestone_createdat :: timestamp
  milestone_updatedat :: timestamp

record communication =
  communicationid :: int
  communication_orderid :: int
  communication_userid :: int
  messagetype :: string
  subject :: "string option"
  messagebody :: "string option"
  attachmentpath :: "string option"
  isread :: bool
  communication_priority :: string
  communication_createdat :: timestamp
  communication_updatedat :: timestamp

record tables =
  orders :: "order list"
  poinvoice :: "invoice list"
  milestones :: "milestone list"
  communications :: "communication list"

text \<open>
  The database: the committed tables, which every connection sees, and the two
  \<open>SERIAL\<close> sequences, which advance outside any transaction and are never rolled
  back.
\<close>

record database =
  committed :: tables
  milestones_milestoneid_seq :: int
  communications_communicationid_seq :: int

text \<open>
  A pooled connection. Between \<open>BEGIN\<close> and \<open>COMMIT\<close> or \<open>ROLLBACK\<close> its
  statements work on the transaction's own copy of the tables; the committed tables
  change at \<open>COMMIT\<close> only.
\<close>

record client =
  db :: database
  transaction :: "tables option"

definition connect :: "database \<Rightarrow> client" where
  "connect d = \<lparr>db = d, transaction = None\<rparr>"

definition release :: "client \<Rightarrow> database" where
  "release c = db c"

definition current :: "client \<Rightarrow> tables" where
  "current c = (case transaction c of Some w \<Rightarrow> w | None \<Rightarrow> committed (db c))"

definition write_tables :: "tables \<Rightarrow> client \<Rightarrow> client" where
  "write_tables t c =
     (case transaction c of
        Some w \<Rightarrow> c\<lparr>transaction := Some t\<rparr>
      | None \<Rightarrow> c\<lparr>db := (db c)\<lparr>committed := t\<rparr>\<rparr>)"

subsection \<open>Statements\<close>

text \<open>
  \<open>await client.query(...)\<close> either resolves with a result or rejects with an error,
  whose message is all the endpoints use: a statement is a function from the connection
  to the message or the result, and the connection after it.
\<close>

type_synonym 'a query = "client \<Rightarrow> (string + 'a) \<times> client"

definition BEGIN :: "unit query" where
  "BEGIN c = (Inr (), c\<lparr>transaction := Some (current c)\<rparr>)"

definition COMMIT :: "unit query" where
  "COMMIT c = (Inr (), c\<lparr>db := (db c)\<lparr>committed := current c\<rparr>, transaction := None\<rparr>)"

definition ROLLBACK :: "unit query" where
  "ROLLBACK c = (Inr (), c\<lparr>transaction := None\<rparr>)"

text \<open>
  The \<open>orderid\<close> and \<open>userid\<close> columns are \<open>INT\<close>, as is every column that
  refers to \<open>orders(orderid)\<close>: they hold the numbers from \<open>-2^31\<close> to
  \<open>2^31 - 1\<close>. A number in a request is sent to PostgreSQL as its text and read as
  the \<open>INT\<close> the column asks for; where it is outside that range the statement is
  rejected before it runs, whatever the tables hold, and nothing of it takes effect
  (no sequence advances). A parameter that is missing is sent as \<open>NULL\<close> and passes.
  The message quotes the number as it was sent: in decimal, for every safe integer.
\<close>

definition int4 :: "int \<Rightarrow> bool" where
  "int4 n = (- 2147483648 \<le> n \<and> n \<le> 2147483647)"

definition out_of_range :: "int \<Rightarrow> string" where
  "out_of_range n =
     ''value '' @ CHR 0x22 # Number_toString n @ CHR 0x22
       # '' is out of range for type integer''"

definition int4_parameter :: "int option \<Rightarrow> 'a query \<Rightarrow> 'a query" where
  "int4_parameter p q c =
     (case p of
        None \<Rightarrow> q c
      | Some n \<Rightarrow> if int4 n then q c else (Inl (out_of_range n), c))"

text \<open>
  \<open>SELECT COUNT(*) as count FROM milestones WHERE orderid = $1 AND ...\<close>, with the
  parameter and the whole condition as a predicate on rows. \<open>orderid = NULL\<close> holds
  of no row: the conditions below compare \<open>Some (milestone_orderid m)\<close> with the
  parameter.
\<close>

definition select_count_milestones :: "int option \<Rightarrow> (milestone \<Rightarrow> bool) \<Rightarrow> nat query" where
  "select_count_milestones p_orderid cond =
     int4_parameter p_orderid
       (\<lambda>c. (Inr (length (filter cond (milestones (current c)))), c))"

text \<open>
  The two \<open>INSERT\<close> statements. Once the parameters are read, the row's key is drawn
  from the sequence first; then the \<open>NOT NULL\<close> constraints on \<open>orderid\<close> and
  \<open>userid\<close> and the foreign key to \<open>orders\<close> are checked, and the statement is
  rejected where one fails.
\<close>

definition not_null_violation :: "string \<Rightarrow> string \<Rightarrow> string" where
  "not_null_violation column relation =
     ''null value in column '' @ CHR 0x22 # column @ CHR 0x22 # '' of relation ''
       @ CHR 0x22 # relation @ CHR 0x22 # '' violates not-null constraint''"

definition foreign_key_violation :: "string \<Rightarrow> string \<Rightarrow> string" where
  "foreign_key_violation relation constraint =
     ''insert or update on table '' @ CHR 0x22 # relation @ CHR 0x22
       # '' violates foreign key constraint '' @ CHR 0x22 # constraint @ [CHR 0x22]"

definition order_exists :: "order list \<Rightarrow> int \<Rightarrow> bool" where
  "order_exists os oid = (oid \<in> set (map orderid os))"

definition insert_milestone ::
    "int option \<Rightarrow> int option \<Rightarrow> string \<Rightarrow> string \<Rightarrow> string \<Rightarrow> timestamp \<Rightarrow> int query" where
  "insert_milestone p_orderid p_userid mtype mtitle mdescription now =
     int4_parameter p_orderid (int4_parameter p_userid (\<lambda>c.
     (let key = milestones_milestoneid_seq (db c) + 1;
          c1 = c\<lparr>db := (db c)\<lparr>milestones_milestoneid_seq := key\<rparr>\<rparr>
      in case p_orderid of
           None \<Rightarrow> (Inl (not_null_violation ''orderid'' ''milestones''), c1)
         | Some oid \<Rightarrow>
       (case p_userid of
           None \<Rightarrow> (Inl (not_null_violation ''userid'' ''milestones''), c1)
         | Some uid \<Rightarrow>
           if \<not> order_exists (orders (current c1)) oid
           then (Inl (foreign_key_violation ''milestones'' ''fk_milestones_order''), c1)
           else (Inr key,
                 write_tables ((current c1)\<lparr>milestones := milestones (current c1) @
                   [\<lparr>milestoneid = key, milestone_orderid = oid, milestone_userid = uid,
                     milestonetype = mtype, status = ''completed'', title = mtitle,
                     description = Some mdescription, duedate = None,
                     completeddate = Some now, completedbyuserid = Some uid,
                     priority = ''medium'', isvisible = True,
                     milestone_createdat = now, milestone_updatedat = now\<rparr>]\<rparr>) c1)))))"

definition insert_communication ::
    "int option \<Rightarrow> int option \<Rightarrow> string \<Rightarrow> string \<Rightarrow> timestamp \<Rightarrow> unit query" where
  "insert_communication p_orderid p_userid msubject mbody now =
     int4_parameter p_orderid (int4_parameter p_userid (\<lambda>c.
     (let key = communications_communicationid_seq (db c) + 1;
          c1 = c\<lparr>db := (db c)\<lparr>communications_communicationid_seq := key\<rparr>\<rparr>
      in case p_orderid of
           None \<Rightarrow> (Inl (not_null_violation ''orderid'' ''communications''), c1)
         | Some oid \<Rightarrow>
       (case p_userid of
           None \<Rightarrow> (Inl (not_null_violation ''userid'' ''communications''), c1)
         | Some uid \<Rightarrow>
           if \<not> order_exists (orders (current c1)) oid
           then (Inl (foreign_key_violation ''communications'' ''fk_communications_order''), c1)
           else (Inr (),
                 write_tables ((current c1)\<lparr>communications := communications (current c1) @
                   [\<lparr>communicationid = key, communication_orderid = oid,
                     communication_userid = uid, messagetype = ''milestone_update'',
                     subject = Some msubject, messagebody = Some mbody,
                     attachmentpath = None, isread = False,
                     communication_priority = ''normal'',
                     communication_createdat = now, communication_updatedat = now\<rparr>]\<rparr>) c1)))))"

text \<open>
  \<open>UPDATE poinvoice SET expectedstockstatus = ..., updatedat = NOW() WHERE orderid = $1\<close>
  and \<open>UPDATE orders SET orderstatus = ... WHERE orderid = $1\<close>.
\<close>

definition update_poinvoice :: "int option \<Rightarrow> string \<Rightarrow> timestamp \<Rightarrow> unit query" where
  "update_poinvoice p_orderid s now =
     int4_parameter p_orderid (\<lambda>c.
     (Inr (),
      write_tables ((current c)\<lparr>poinvoice :=
        map (\<lambda>i. if Some (invoice_orderid i) = p_orderid
                  then i\<lparr>expectedstockstatus := s, invoice_updatedat := now\<rparr> else i)
            (poinvoice (current c))\<rparr>) c))"

definition update_orders :: "int option \<Rightarrow> string \<Rightarrow> unit query" where
  "update_orders p_orderid s =
     int4_parameter p_orderid (\<lambda>c.
     (Inr (),
      write_tables ((current c)\<lparr>orders :=
        map (\<lambda>r. if Some (orderid r) = p_orderid then r\<lparr>orderstatus := s\<rparr> else r)
            (orders (current c))\<rparr>) c))"

text \<open>
  A statement can also be rejected for a reason that is neither in its parameters nor in
  the stored data (a lock timeout, a serialization failure, a lost connection). The
  parameter \<open>fault\<close> of an
  endpoint says which of its statements is rejected so, and with what message; a
  rejected statement has no effect. \<open>ROLLBACK\<close> is taken never to be rejected.
\<close>

datatype statement =
    Begin
  | Select_milestones
  | Update_poinvoice
  | Insert_milestone
  | Update_orders
  | Insert_communication
  | Commit

definition query :: "(statement \<Rightarrow> string option) \<Rightarrow> statement \<Rightarrow> 'a query \<Rightarrow> 'a query" where
  "query fault s q c = (case fault s of Some message \<Rightarrow> (Inl message, c) | None \<Rightarrow> q c)"

text \<open>
  Sequencing inside a \<open>try\<close> block: the first rejected \<open>await\<close> leaves the block
  with its error.
\<close>

definition and_then :: "'a query \<Rightarrow> ('a \<Rightarrow> 'b query) \<Rightarrow> 'b query" where
  "and_then q k c = (case q c of (Inl err, c') \<Rightarrow> (Inl err, c') | (Inr x, c') \<Rightarrow> k x c')"

definition resolve :: "'a \<Rightarrow> 'a query" where
  "resolve x c = (Inr x, c)"

subsection \<open>The five endpoints\<close>

text \<open>
  A request body \<open>{orderid, userid}\<close>; a field that is absent or \<open>null\<close> is \<open>None\<close>.
  A response is the status code and the JSON sent:
  \<open>{success: true, message, milestoneId}\<close> (the last only from \<open>confirm-order\<close>) or
  \<open>{error}\<close>.
\<close>

record request =
  body_orderid :: "int option"
  body_userid :: "int option"

datatype body = Success string "int option" | Error string

datatype response = Response nat body

fun statusCode :: "response \<Rightarrow> nat" where
  "statusCode (Response code b) = code"

text \<open>\<open>!x\<close> for a request field: absent, \<open>null\<close> and 0 are falsy.\<close>

definition falsy :: "int option \<Rightarrow> bool" where
  "falsy x = (x = None \<or> x = Some 0)"

text \<open>
  Every endpoint takes a connection from the pool, runs its \<open>try\<close> block, rolls back
  in the \<open>catch\<close> and answers 500 with the error's message if the block threw, and
  releases the connection in the \<open>finally\<close>.
\<close>

definition try_catch ::
    "response query \<Rightarrow> database \<Rightarrow> response \<times> database" where
  "try_catch block d =
     (case block (connect d) of
        (Inr res, c) \<Rightarrow> (res, release c)
      | (Inl message, c) \<Rightarrow> (Response 500 (Error message), release (snd (ROLLBACK c))))"

text \<open>
  \<open>POST /api/milestones/confirm-order\<close>. The call of
  \<open>ensureCommunicationsHubTables\<close> after \<open>BEGIN\<close> creates missing tables through
  the pool and swallows its errors; the tables exist here, so it does nothing.
\<close>

definition confirm_order ::
    "(statement \<Rightarrow> string option) \<Rightarrow> timestamp \<Rightarrow> request \<Rightarrow> database \<Rightarrow> response \<times> database" where
  "confirm_order fault now req d =
     (let orderid = body_orderid req; userid = body_userid req in
      if falsy orderid \<or> falsy userid
      then (Response 400 (Error ''orderid and userid are required''), d)
      else try_catch
        (and_then (query fault Begin BEGIN) (\<lambda>_.
         and_then (query fault Select_milestones (select_count_milestones orderid
            (\<lambda>m. Some (milestone_orderid m) = orderid
                 \<and> milestonetype m = ''order_confirmed''))) (\<lambda>count.
         if count > 0
         then and_then ROLLBACK (\<lambda>_.
              resolve (Response 400 (Error ''Order already confirmed'')))
         else
         and_then (query fault Insert_milestone (insert_milestone orderid userid
            ''order_confirmed'' ''Order Confirmed''
            ''Purchase order confirmed by exporter'' now)) (\<lambda>milestoneId.
         and_then (query fault Update_orders (update_orders orderid ''Confirmed'')) (\<lambda>_.
         and_then (query fault Insert_communication (insert_communication orderid userid
            ''Order Confirmed''
            ''Purchase order has been confirmed by the exporter. Production can begin.''
            now)) (\<lambda>_.
         and_then (query fault Commit COMMIT) (\<lambda>_.
         resolve (Response 200
           (Success ''Order confirmed successfully'' (Some milestoneId))))))))))
        d)"

text \<open>\<open>POST /api/milestones/ready-to-ship\<close>.\<close>

definition ready_to_ship ::
    "(statement \<Rightarrow> string option) \<Rightarrow> timestamp \<Rightarrow> request \<Rightarrow> database \<Rightarrow> response \<times> database" where
  "ready_to_ship fault now req d =
     (let orderid = body_orderid req; userid = body_userid req in
      try_catch
        (and_then (query fault Begin BEGIN) (\<lambda>_.
         and_then (query fault Select_milestones (select_count_milestones orderid
            (\<lambda>m. Some (milestone_orderid m) = orderid
                 \<and> milestonetype m = ''order_confirmed''
                 \<and> status m = ''completed''))) (\<lambda>count.
         if count = 0
         then and_then ROLLBACK (\<lambda>_.
              resolve (Response 400
                (Error ''Order must be confirmed before marking as ready to ship'')))
         else
         and_then (query fault Update_poinvoice
            (update_poinvoice orderid ''confirmed'' now)) (\<lambda>_.
         and_then (query fault Insert_milestone (insert_milestone orderid userid
            ''ready_to_ship'' ''Ready to Ship''
            ''Production complete. Goods prepared and ready for dispatch.'' now)) (\<lambda>_.
         and_then (query fault Insert_communication (insert_communication orderid userid
            ''Goods Ready to Ship''
            ''Production is complete. All goods are prepared and ready for collection/dispatch.''
            now)) (\<lambda>_.
         and_then (query fault Commit COMMIT) (\<lambda>_.
         resolve (Response 200 (Success ''Goods marked as ready to ship'' None)))))))))
        d)"

text \<open>\<open>POST /api/milestones/goods-shipped\<close>.\<close>

definition goods_shipped ::
    "(statement \<Rightarrow> string option) \<Rightarrow> timestamp \<Rightarrow> request \<Rightarrow> database \<Rightarrow> response \<times> database" where
  "goods_shipped fault now req d =
     (let orderid = body_orderid req; userid = body_userid req in
      try_catch
        (and_then (query fault Begin BEGIN) (\<lambda>_.
         and_then (query fault Select_milestones (select_count_milestones orderid
            (\<lambda>m. Some (milestone_orderid m) = orderid
                 \<and> milestonetype m = ''ready_to_ship''
                 \<and> status m = ''completed''))) (\<lambda>count.
         if count = 0
         then and_then ROLLBACK (\<lambda>_.
              resolve (Response 400
                (Error (''Goods must be marked as ''
                   @ [CHR 0x27] @ ''Ready to Ship'' @ [CHR 0x27] @ '' before shipping''))))
         else
         and_then (query fault Update_poinvoice
            (update_poinvoice orderid ''shipped'' now)) (\<lambda>_.
         and_then (query fault Insert_milestone (insert_milestone orderid userid
            ''goods_shipped'' ''Goods Shipped''
            ''Goods have been dispatched and are now in transit.'' now)) (\<lambda>_.
         and_then (query fault Update_orders (update_orders orderid ''Shipped'')) (\<lambda>_.
         and_then (query fault Insert_communication (insert_communication orderid userid
            ''Goods Shipped''
            ''Goods have been dispatched from origin and are now in transit to destination.''
            now)) (\<lambda>_.
         and_then (query fault Commit COMMIT) (\<lambda>_.
         resolve (Response 200 (Success ''Goods marked as shipped'' None))))))))))
        d)"

text \<open>\<open>POST /api/milestones/goods-arrived\<close>.\<close>

definition goods_arrived ::
    "(statement \<Rightarrow> string option) \<Rightarrow> timestamp \<Rightarrow> request \<Rightarrow> database \<Rightarrow> response \<times> database" where
  "goods_arrived fault now req d =
     (let orderid = body_orderid req; userid = body_userid req in
      try_catch
        (and_then (query fault Begin BEGIN) (\<lambda>_.
         and_then (query fault Select_milestones (select_count_milestones orderid
            (\<lambda>m. Some (milestone_orderid m) = orderid
                 \<and> milestonetype m = ''goods_shipped''
                 \<and> status m = ''completed''))) (\<lambda>count.
         if count = 0
         then and_then ROLLBACK (\<lambda>_.
              resolve (Response 400
                (Error ''Goods must be shipped before they can arrive'')))
         else
         and_then (query fault Update_poinvoice
            (update_poinvoice orderid ''arrived'' now)) (\<lambda>_.
         and_then (query fault Insert_milestone (insert_milestone orderid userid
            ''goods_arrived'' ''Goods Arrived''
            ''Shipment has arrived at destination and is ready for collection.'' now)) (\<lambda>_.
         and_then (query fault Insert_communication (insert_communication orderid userid
            ''Goods Arrived at Destination''
            ''Shipment has arrived at destination port/facility and is ready for collection or final delivery.''
            now)) (\<lambda>_.
         and_then (query fault Commit COMMIT) (\<lambda>_.
         resolve (Response 200 (Success ''Goods marked as arrived'' None)))))))))
        d)"

text \<open>\<open>POST /api/milestones/goods-received\<close>.\<close>

definition goods_received ::
    "(statement \<Rightarrow> string option) \<Rightarrow> timestamp \<Rightarrow> request \<Rightarrow> database \<Rightarrow> response \<times> database" where
  "goods_received fault now req d =
     (let orderid = body_orderid req; userid = body_userid req in
      try_catch
        (and_then (query fault Begin BEGIN) (\<lambda>_.
         and_then (query fault Select_milestones (select_count_milestones orderid
            (\<lambda>m. Some (milestone_orderid m) = orderid
                 \<and> milestonetype m = ''goods_arrived''
                 \<and> status m = ''completed''))) (\<lambda>count.
         if count = 0
         then and_then ROLLBACK (\<lambda>_.
              resolve (Response 400
                (Error ''Goods must arrive before they can be received'')))
         else
         and_then (query fault Update_poinvoice
            (update_poinvoice orderid ''completed'' now)) (\<lambda>_.
         and_then (query fault Insert_milestone (insert_milestone orderid userid
            ''goods_received'' ''Goods Received & Verified''
            ''Final delivery completed and goods verified by importer.'' now)) (\<lambda>_.
         and_then (query fault Update_orders (update_orders orderid ''Completed'')) (\<lambda>_.
         and_then (query fault Insert_communication (insert_communication orderid userid
            ''Order Complete''
            ''Goods have been received, verified, and the order is now complete. Thank you for your business!''
            now)) (\<lambda>_.
         and_then (query fault Commit COMMIT) (\<lambda>_.
         resolve (Response 200 (Success ''Goods received and order completed'' None))))))))))
        d)"

text \<open>The router: one endpoint per action.\<close>

datatype action = Confirm_order | Ready_to_ship | Goods_shipped | Goods_arrived | Goods_received

fun handle ::
    "action \<Rightarrow> (statement \<Rightarrow> string option) \<Rightarrow> timestamp \<Rightarrow> request \<Rightarrow> database
      \<Rightarrow> response \<times> database" where
  "handle Confirm_order = confirm_order"
| "handle Ready_to_ship = ready_to_ship"
| "handle Goods_shipped = goods_shipped"
| "handle Goods_arrived = goods_arrived"
| "handle Goods_received = goods_received"

text \<open>
  A run of the server: requests served one after the other, each with the faults and
  the clock reading of its transaction.
\<close>

record call =
  call_action :: action
  call_fault :: "statement \<Rightarrow> string option"
  call_now :: timestamp
  call_request :: request

fun run :: "database \<Rightarrow> call list \<Rightarrow> database" where
  "run d [] = d"
| "run d (x # xs) =
     run (snd (handle (call_action x) (call_fault x) (call_now x) (call_request x) d)) xs"


subsection \<open>The common shape of the endpoints\<close>

text \<open>
  The five endpoints are one sequence of statements with different constants. The
  sequence is written once here, with the constants as parameters, and each endpoint is
  shown below to be an instance of it; the properties of the endpoints are then proved
  on the one sequence. A step that an endpoint does not have is \<open>None\<close>.
\<close>

record constants =
  check :: "int option \<Rightarrow> milestone \<Rightarrow> bool"
  refused :: "nat \<Rightarrow> bool"
  refusal :: string
  invoice_status :: "string option"
  new_type :: string
  new_title :: string
  new_description :: string
  order_status :: "string option"
  new_subject :: string
  new_messagebody :: string
  success :: "int \<Rightarrow> body"

definition optional :: "'p option \<Rightarrow> ('p \<Rightarrow> unit query) \<Rightarrow> unit query" where
  "optional p q = (case p of None \<Rightarrow> resolve () | Some v \<Rightarrow> q v)"

definition endpoint ::
    "constants \<Rightarrow> (statement \<Rightarrow> string option) \<Rightarrow> timestamp \<Rightarrow> request \<Rightarrow> database
      \<Rightarrow> response \<times> database" where
  "endpoint k fault now req d =
     (let orderid = body_orderid req; userid = body_userid req in
      try_catch
        (and_then (query fault Begin BEGIN) (\<lambda>_.
         and_then (query fault Select_milestones
            (select_count_milestones orderid (check k orderid))) (\<lambda>count.
         if refused k count
         then and_then ROLLBACK (\<lambda>_. resolve (Response 400 (Error (refusal k))))
         else
         and_then (optional (invoice_status k) (\<lambda>s.
            query fault Update_poinvoice (update_poinvoice orderid s now))) (\<lambda>_.
         and_then (query fault Insert_milestone (insert_milestone orderid userid
            (new_type k) (new_title k) (new_description k) now)) (\<lambda>milestoneId.
         and_then (optional (order_status k) (\<lambda>s.
            query fault Update_orders (update_orders orderid s))) (\<lambda>_.
         and_then (query fault Insert_communication (insert_communication orderid userid
            (new_subject k) (new_messagebody k) now)) (\<lambda>_.
         and_then (query fault Commit COMMIT) (\<lambda>_.
         resolve (Response 200 (success k milestoneId))))))))))
        d)"

fun constants_of :: "action \<Rightarrow> constants" where
  "constants_of Confirm_order =
     \<lparr>check = (\<lambda>orderid m. Some (milestone_orderid m) = orderid
                 \<and> milestonetype m = ''order_confirmed''),
      refused = (\<lambda>count. count > 0),
      refusal = ''Order already confirmed'',
      invoice_status = None,
      new_type = ''order_confirmed'',
      new_title = ''Order Confirmed'',
      new_description = ''Purchase order confirmed by exporter'',
      order_status = Some ''Confirmed'',
      new_subject = ''Order Confirmed'',
      new_messagebody =
        ''Purchase order has been confirmed by the exporter. Production can begin.'',
      success = (\<lambda>milestoneId. Success ''Order confirmed successfully'' (Some milestoneId))\<rparr>"
| "constants_of Ready_to_ship =
     \<lparr>check = (\<lambda>orderid m. Some (milestone_orderid m) = orderid
                 \<and> milestonetype m = ''order_confirmed'' \<and> status m = ''completed''),
      refused = (\<lambda>count. count = 0),
      refusal = ''Order must be confirmed before marking as ready to ship'',
      invoice_status = Some ''confirmed'',
      new_type = ''ready_to_ship'',
      new_title = ''Ready to Ship'',
      new_description = ''Production complete. Goods prepared and ready for dispatch.'',
      order_status = None,
      new_subject = ''Goods Ready to Ship'',
      new_messagebody =
        ''Production is complete. All goods are prepared and ready for collection/dispatch.'',
      success = (\<lambda>milestoneId. Success ''Goods marked as ready to ship'' None)\<rparr>"
| "constants_of Goods_shipped =
     \<lparr>check = (\<lambda>orderid m. Some (milestone_orderid m) = orderid
                 \<and> milestonetype m = ''ready_to_ship'' \<and> status m = ''completed''),
      refused = (\<lambda>count. count = 0),
      refusal = ''Goods must be marked as '' @ [CHR 0x27] @ ''Ready to Ship'' @ [CHR 0x27]
                  @ '' before shipping'',
      invoice_status = Some ''shipped'',
      new_type = ''goods_shipped'',
      new_title = ''Goods Shipped'',
      new_description = ''Goods have been dispatched and are now in transit.'',
      order_status = Some ''Shipped'',
      new_subject = ''Goods Shipped'',
      new_messagebody =
        ''Goods have been dispatched from origin and are now in transit to destination.'',
      success = (\<lambda>milestoneId. Success ''Goods marked as shipped'' None)\<rparr>"
| "constants_of Goods_arrived =
     \<lparr>check = (\<lambda>orderid m. Some (milestone_orderid m) = orderid
                 \<and> milestonetype m = ''goods_shipped'' \<and> status m = ''completed''),
      refused = (\<lambda>count. count = 0),
      refusal = ''Goods must be shipped before they can arrive'',
      invoice_status = Some ''arrived'',
      new_type = ''goods_arrived'',
      new_title = ''Goods Arrived'',
      new_description = ''Shipment has arrived at destination and is ready for collection.'',
      order_status = None,
      new_subject = ''Goods Arrived at Destination'',
      new_messagebody =
        ''Shipment has arrived at destination port/facility and is ready for collection or final delivery.'',
      success = (\<lambda>milestoneId. Success ''Goods marked as arrived'' None)\<rparr>"
| "constants_of Goods_received =
     \<lparr>check = (\<lambda>orderid m. Some (milestone_orderid m) = orderid
                 \<and> milestonetype m = ''goods_arrived'' \<and> status m = ''completed''),
      refused = (\<lambda>count. count = 0),
      refusal = ''Goods must arrive before they can be received'',
      invoice_status = Some ''completed'',
      new_type = ''goods_received'',
      new_title = ''Goods Received & Verified'',
      new_description = ''Final delivery completed and goods verified by importer.'',
      order_status = Some ''Completed'',
      new_subject = ''Order Complete'',
      new_messagebody =
        ''Goods have been received, verified, and the order is now complete. Thank you for your business!'',
      success = (\<lambda>milestoneId. Success ''Goods received and order completed'' None)\<rparr>"

text \<open>
  \<open>faultless k fault\<close>: none of the statements the sequence issues with constants
  \<open>k\<close> is rejected from outside. \<open>committed_after k now oid uid d\<close>: the committed
  tables after the sequence has run to its \<open>COMMIT\<close> on database \<open>d\<close> for order
  \<open>oid\<close> and user \<open>uid\<close>.
\<close>

definition faultless :: "constants \<Rightarrow> (statement \<Rightarrow> string option) \<Rightarrow> bool" where
  "faultless k fault =
     (fault Begin = None \<and> fault Select_milestones = None
      \<and> (invoice_status k = None \<or> fault Update_poinvoice = None)
      \<and> fault Insert_milestone = None
      \<and> (order_status k = None \<or> fault Update_orders = None)
      \<and> fault Insert_communication = None \<and> fault Commit = None)"

definition committed_after ::
    "constants \<Rightarrow> timestamp \<Rightarrow> int \<Rightarrow> int \<Rightarrow> database \<Rightarrow> tables" where
  "committed_after k now oid uid d =
     \<lparr>orders =
        (case order_status k of
           None \<Rightarrow> orders (committed d)
         | Some s \<Rightarrow>
             map (\<lambda>r. if orderid r = oid then r\<lparr>orderstatus := s\<rparr> else r)
                 (orders (committed d))),
      poinvoice =
        (case invoice_status k of
           None \<Rightarrow> poinvoice (committed d)
         | Some s \<Rightarrow>
             map (\<lambda>i. if invoice_orderid i = oid
                       then i\<lparr>expectedstockstatus := s, invoice_updatedat := now\<rparr> else i)
                 (poinvoice (committed d))),
      milestones = milestones (committed d) @
        [\<lparr>milestoneid = milestones_milestoneid_seq d + 1, milestone_orderid = oid,
          milestone_userid = uid, milestonetype = new_type k, status = ''completed'',
          title = new_title k, description = Some (new_description k), duedate = None,
          completeddate = Some now, completedbyuserid = Some uid,
          priority = ''medium'', isvisible = True,
          milestone_createdat = now, milestone_updatedat = now\<rparr>],
      communications = communications (committed d) @
        [\<lparr>communicationid = communications_communicationid_seq d + 1,
          communication_orderid = oid, communication_userid = uid,
          messagetype = ''milestone_update'', subject = Some (new_subject k),
          messagebody = Some (new_messagebody k), attachmentpath = None, isread = False,
          communication_priority = ''normal'',
          communication_createdat = now, communication_updatedat = now\<rparr>]\<rparr>"


subsection \<open>The tables of the specification\<close>

text \<open>
  What the specification says of the five actions, to compare the endpoints with: the
  type of milestone an action records, the type that must be completed before
  (the transition table), and the status an action gives to the invoices and to the
  order (the cascade), \<open>None\<close> where it leaves them as they are. The types are
  written as the endpoints store them.
\<close>

fun milestone_type :: "action \<Rightarrow> string" where
  "milestone_type Confirm_order = ''order_confirmed''"
| "milestone_type Ready_to_ship = ''ready_to_ship''"
| "milestone_type Goods_shipped = ''goods_shipped''"
| "milestone_type Goods_arrived = ''goods_arrived''"
| "milestone_type Goods_received = ''goods_received''"

fun predecessor :: "action \<Rightarrow> string option" where
  "predecessor Confirm_order = None"
| "predecessor Ready_to_ship = Some ''order_confirmed''"
| "predecessor Goods_shipped = Some ''ready_to_ship''"
| "predecessor Goods_arrived = Some ''goods_shipped''"
| "predecessor Goods_received = Some ''goods_arrived''"

fun mapped_invoice_status :: "action \<Rightarrow> string option" where
  "mapped_invoice_status Confirm_order = None"
| "mapped_invoice_status Ready_to_ship = Some ''confirmed''"
| "mapped_invoice_status Goods_shipped = Some ''shipped''"
| "mapped_invoice_status Goods_arrived = Some ''arrived''"
| "mapped_invoice_status Goods_received = Some ''completed''"

fun mapped_order_status :: "action \<Rightarrow> string option" where
  "mapped_order_status Confirm_order = Some ''Confirmed''"
| "mapped_order_status Ready_to_ship = None"
| "mapped_order_status Goods_shipped = Some ''Shipped''"
| "mapped_order_status Goods_arrived = None"
| "mapped_order_status Goods_received = Some ''Completed''"

definition canonical_chain :: "string list" where
  "canonical_chain =
     [''order_confirmed'', ''ready_to_ship'', ''goods_shipped'', ''goods_arrived'',
      ''goods_received'']"

text \<open>
  The milestone rows of an order with a given type, the completed ones among them, and
  the set of types the order has completed.
\<close>

definition rows_of :: "tables \<Rightarrow> int \<Rightarrow> string \<Rightarrow> milestone list" where
  "rows_of t oid ty =
     filter (\<lambda>m. milestone_orderid m = oid \<and> milestonetype m = ty) (milestones t)"

definition completed_rows :: "tables \<Rightarrow> int \<Rightarrow> string \<Rightarrow> milestone list" where
  "completed_rows t oid ty = filter (\<lambda>m. status m = ''completed'') (rows_of t oid ty)"

definition completed_types :: "tables \<Rightarrow> int \<Rightarrow> string set" where
  "completed_types t oid =
     milestonetype ` {m \<in> set (milestones t). milestone_orderid m = oid \<and> status m = ''completed''}"

text \<open>The cascade on the invoices and on the order, as the specification maps it.\<close>

definition cascade_invoices :: "action \<Rightarrow> int \<Rightarrow> timestamp \<Rightarrow> invoice list \<Rightarrow> invoice list" where
  "cascade_invoices a oid now invs =
     (case mapped_invoice_status a of
        None \<Rightarrow> invs
      | Some s \<Rightarrow>
          map (\<lambda>i. if invoice_orderid i = oid
                    then i\<lparr>expectedstockstatus := s, invoice_updatedat := now\<rparr> else i) invs)"

definition cascade_orders :: "action \<Rightarrow> int \<Rightarrow> order list \<Rightarrow> order list" where
  "cascade_orders a oid os =
     (case mapped_order_status a of
        None \<Rightarrow> os
      | Some s \<Rightarrow> map (\<lambda>r. if orderid r = oid then r\<lparr>orderstatus := s\<rparr> else r) os)"

text \<open>
  \<open>transition a oid uid now t t'\<close>: the tables \<open>t'\<close> are the tables \<open>t\<close> after the
  four effects of action \<open>a\<close> for order \<open>oid\<close> by user \<open>uid\<close> at time \<open>now\<close>,
  and nothing else: one milestone row more, completed, of the action's type; the
  invoices and the order as the cascade maps them; one communication row more.
\<close>

definition transition :: "action \<Rightarrow> int \<Rightarrow> int \<Rightarrow> timestamp \<Rightarrow> tables \<Rightarrow> tables \<Rightarrow> bool" where
  "transition a oid uid now t t' =
     ((\<exists>m. milestones t' = milestones t @ [m]
          \<and> milestone_orderid m = oid \<and> milestonetype m = milestone_type a
          \<and> status m = ''completed'' \<and> completeddate m = Some now
          \<and> completedbyuserid m = Some uid)
      \<and> poinvoice t' = cascade_invoices a oid now (poinvoice t)
      \<and> orders t' = cascade_orders a oid (orders t)
      \<and> (\<exists>c. communications t' = communications t @ [c]
          \<and> communication_orderid c = oid \<and> communication_userid c = uid
          \<and> messagetype c = ''milestone_update'' \<and> communication_createdat c = now))"

text \<open>
  A set of types is a contiguous prefix of the canonical chain when it is the set of
  the first \<open>n\<close> types of the chain, for some \<open>n\<close>.
\<close>

definition contiguous_prefix :: "string set \<Rightarrow> bool" where
  "contiguous_prefix S = (\<exists>n \<le> length canonical_chain. S = set (take n canonical_chain))"

text \<open>The place of an action's type in the canonical chain, counted from 0.\<close>

fun position :: "action \<Rightarrow> nat" where
  "position Confirm_order = 0"
| "position Ready_to_ship = 1"
| "position Goods_shipped = 2"
| "position Goods_arrived = 3"
| "position Goods_received = 4"

subsection \<open>What each endpoint checks, answers and issues\<close>

text \<open>
  \<open>enabled a oid t\<close>: what the endpoint of action \<open>a\<close> asks of the stored
  milestones of order \<open>oid\<close> before it writes. \<open>confirm-order\<close> asks that no
  \<open>order_confirmed\<close> row exists, whatever its status; the other four ask for a
  completed row of the predecessor type.
\<close>

definition enabled :: "action \<Rightarrow> int \<Rightarrow> tables \<Rightarrow> bool" where
  "enabled a oid t =
     (case predecessor a of
        None \<Rightarrow> rows_of t oid (milestone_type a) = []
      | Some p \<Rightarrow> completed_rows t oid p \<noteq> [])"

text \<open>
  The error text of each endpoint when the predecessor is not completed
  (\<open>confirm-order\<close> has no predecessor and no such text).
\<close>

fun precondition_message :: "action \<Rightarrow> string" where
  "precondition_message Confirm_order = []"
| "precondition_message Ready_to_ship =
     ''Order must be confirmed before marking as ready to ship''"
| "precondition_message Goods_shipped =
     ''Goods must be marked as '' @ [CHR 0x27] @ ''Ready to Ship'' @ [CHR 0x27] @ '' before shipping''"
| "precondition_message Goods_arrived = ''Goods must be shipped before they can arrive''"
| "precondition_message Goods_received = ''Goods must arrive before they can be received''"

text \<open>The statements each endpoint issues on its connection, in order.\<close>

fun statements_of :: "action \<Rightarrow> statement list" where
  "statements_of Confirm_order =
     [Begin, Select_milestones, Insert_milestone, Update_orders, Insert_communication, Commit]"
| "statements_of Ready_to_ship =
     [Begin, Select_milestones, Update_poinvoice, Insert_milestone, Insert_communication, Commit]"
| "statements_of Goods_shipped =
     [Begin, Select_milestones, Update_poinvoice, Insert_milestone, Update_orders,
      Insert_communication, Commit]"
| "statements_of Goods_arrived =
     [Begin, Select_milestones, Update_poinvoice, Insert_milestone, Insert_communication, Commit]"
| "statements_of Goods_received =
     [Begin, Select_milestones, Update_poinvoice, Insert_milestone, Update_orders,
      Insert_communication, Commit]"


section \<open>Scenarios\<close>

text \<open>
  The payload of Scenario B, \<open>{refNumber: "R1", lineItems: [{qty: 10}]}\<close>, and the
  same payload with the quantity changed to 11.
\<close>

definition scenario_B_payload :: "(string \<times> jsval) list" where
  "scenario_B_payload =
     [(''refNumber'', JStr ''R1''), (''lineItems'', JArr [JObj [(''qty'', JNum 10)]])]"

definition scenario_B_tampered :: "(string \<times> jsval) list" where
  "scenario_B_tampered =
     [(''refNumber'', JStr ''R1''), (''lineItems'', JArr [JObj [(''qty'', JNum 11)]])]"

text \<open>
  Scenario A: order 42 with two invoices and no milestone, beside an order 43 with one
  invoice; user 7 asks; nothing is rejected from outside.
\<close>

definition scenario_A_database :: database where
  "scenario_A_database =
     \<lparr>committed =
        \<lparr>orders = [\<lparr>orderid = 42, orderstatus = ''Pending''\<rparr>,
                   \<lparr>orderid = 43, orderstatus = ''Pending''\<rparr>],
         poinvoice =
           [\<lparr>poinvoiceid = 1, invoice_orderid = 42, expectedstockstatus = ''planning'',
             invoice_updatedat = 0\<rparr>,
            \<lparr>poinvoiceid = 2, invoice_orderid = 42, expectedstockstatus = ''planning'',
             invoice_updatedat = 0\<rparr>,
            \<lparr>poinvoiceid = 3, invoice_orderid = 43, expectedstockstatus = ''planning'',
             invoice_updatedat = 0\<rparr>],
         milestones = [],
         communications = []\<rparr>,
      milestones_milestoneid_seq = 0,
      communications_communicationid_seq = 0\<rparr>"

definition scenario_A_request :: request where
  "scenario_A_request = \<lparr>body_orderid = Some 42, body_userid = Some 7\<rparr>"

definition no_fault :: "statement \<Rightarrow> string option" where
  "no_fault s = None"

definition scenario_A_call :: "action \<Rightarrow> timestamp \<Rightarrow> call" where
  "scenario_A_call a now =
     \<lparr>call_action = a, call_fault = no_fault, call_now = now,
      call_request = scenario_A_request\<rparr>"


section \<open>Properties of the status codec\<close>

lemma digit_char_decimal:
  assumes "d < 10" shows "digit_char d \<in> set ''0123456789''"
proof -
  from assms have "d = 0 \<or> d = 1 \<or> d = 2 \<or> d = 3 \<or> d = 4 \<or> d = 5 \<or> d = 6 \<or> d = 7 \<or> d = 8 \<or> d = 9"
    by arith
  then show ?thesis
    by (elim disjE) (simp_all add: digit_char_def)
qed

lemma string_of_nat_digits:
  "c \<in> set (string_of_nat n) \<Longrightarrow> c \<in> set ''0123456789''"
proof (induction n rule: string_of_nat.induct)
  case (1 n)
  show ?case
  proof (cases "n < 10")
    case True
    with "1.prems" have "c = digit_char n" by (simp add: string_of_nat.simps [of n])
    with True show ?thesis using digit_char_decimal by blast
  next
    case False
    with "1.prems" have "c \<in> set (string_of_nat (n div 10)) \<or> c = digit_char (n mod 10)"
      by (auto simp: string_of_nat.simps [of n])
    moreover have "digit_char (n mod 10) \<in> set ''0123456789''"
      by (rule digit_char_decimal) simp
    ultimately show ?thesis using False "1.IH" by blast
  qed
qed

lemma string_of_nat_nonempty: "string_of_nat n \<noteq> []"
  by (subst string_of_nat.simps) simp

lemma string_of_nat_length: "10 \<le> n \<Longrightarrow> 2 \<le> length (string_of_nat n)"
proof -
  assume "10 \<le> n"
  then have "string_of_nat n = string_of_nat (n div 10) @ [digit_char (n mod 10)]"
    by (subst string_of_nat.simps) simp
  moreover have "1 \<le> length (string_of_nat (n div 10))"
    using string_of_nat_nonempty [of "n div 10"] by (cases "string_of_nat (n div 10)") auto
  ultimately show ?thesis by simp
qed

lemma Number_toString_chars:
  assumes "c \<in> set (Number_toString n)"
  shows "c \<in> set ''-0123456789''"
proof (cases "n < 0")
  case True
  with assms have "c = CHR ''-'' \<or> c \<in> set (string_of_nat (nat (- n)))"
    by (simp add: Number_toString_def)
  then show ?thesis
    using string_of_nat_digits [of c "nat (- n)"] by auto
next
  case False
  with assms have "c \<in> set (string_of_nat (nat n))"
    by (simp add: Number_toString_def)
  then show ?thesis
    using string_of_nat_digits [of c "nat n"] by auto
qed

lemma Number_toString_nonempty: "Number_toString n \<noteq> []"
  by (simp add: Number_toString_def string_of_nat_nonempty)

lemma Number_toString_neq:
  assumes "x \<notin> set ''-0123456789''"
  shows "Number_toString n \<noteq> x # xs"
proof
  assume "Number_toString n = x # xs"
  then have "x \<in> set (Number_toString n)" by simp
  with assms show False using Number_toString_chars by blast
qed

lemma Number_toString_not_inherited: "inherited (Number_toString n) = JUndefined"
proof -
  have "map_of Object_prototype_functions (Number_toString n) = None"
    by (simp add: Object_prototype_functions_def Number_toString_neq)
  moreover have "Number_toString n \<noteq> ''__proto__''"
    by (simp add: Number_toString_neq)
  ultimately show ?thesis by (simp add: inherited_def)
qed

lemma Number_toString_one_char:
  assumes "length (Number_toString n) = 1"
  shows "0 \<le> n \<and> n < 10"
proof (cases "n < 0")
  case True
  with assms show ?thesis
    using string_of_nat_nonempty [of "nat (- n)"]
    by (simp add: Number_toString_def)
next
  case False
  with assms have "length (string_of_nat (nat n)) = 1"
    by (simp add: Number_toString_def)
  then have "\<not> 10 \<le> nat n"
    using string_of_nat_length [of "nat n"] by auto
  with False show ?thesis by simp
qed

lemma Number_toString_digit:
  "0 \<le> n \<Longrightarrow> n < 10 \<Longrightarrow> Number_toString n = [digit_char (nat n)]"
proof -
  assume "0 \<le> n" "n < 10"
  then have "nat n < 10" by arith
  with \<open>0 \<le> n\<close> show ?thesis
    by (simp add: Number_toString_def string_of_nat.simps [of "nat n"])
qed

lemma mapStatusToString_default:
  assumes "c < 1 \<or> 5 < c"
  shows "mapStatusToString c = JStr ''Pending''"
proof -
  have "map_of statusMap_string (Number_toString c) = None"
  proof (cases "0 \<le> c \<and> c < 10")
    case True
    with assms have "c = 0 \<or> c = 6 \<or> c = 7 \<or> c = 8 \<or> c = 9" by arith
    with True show ?thesis
      by (auto simp: statusMap_string_def Number_toString_digit digit_char_def)
  next
    case False
    then have "length (Number_toString c) \<noteq> 1"
      using Number_toString_one_char by blast
    then show ?thesis
      by (auto simp: statusMap_string_def)
  qed
  then show ?thesis
    by (simp add: mapStatusToString_def Get_def Number_toString_not_inherited)
qed

lemma mapStatusToInt_number: "mapStatusToInt (JNum n) = JNum n"
  by (simp add: mapStatusToInt_def)

lemma mapStatusToInt_default:
  assumes "map_of statusMap_int s = None" and "\<not> truthy (inherited s)"
  shows "mapStatusToInt (JStr s) = JNum 1"
  using assms by (simp add: mapStatusToInt_def Get_def)

lemma mapStatusToInt_bogus: "mapStatusToInt (JStr ''bogus'') = JNum 1"
  by (simp add: mapStatusToInt_def Get_def statusMap_int_def inherited_def
        Object_prototype_functions_def)

lemma mapStatusToString_999: "mapStatusToString 999 = JStr ''Pending''"
  by (simp add: mapStatusToString_default)

lemma mapStatusToString_defined:
  "mapStatusToString 1 = JStr ''Pending''"
  "mapStatusToString 2 = JStr ''Confirmed''"
  "mapStatusToString 3 = JStr ''In Transit''"
  "mapStatusToString 4 = JStr ''Delivered''"
  "mapStatusToString 5 = JStr ''Cancelled''"
  by (simp_all add: mapStatusToString_def Get_def statusMap_string_def
        Number_toString_digit digit_char_def)

lemma mapStatusToInt_defined:
  "mapStatusToInt (JStr ''Pending'') = JNum 1"
  "mapStatusToInt (JStr ''Confirmed'') = JNum 2"
  "mapStatusToInt (JStr ''In Transit'') = JNum 3"
  "mapStatusToInt (JStr ''Delivered'') = JNum 4"
  "mapStatusToInt (JStr ''Cancelled'') = JNum 5"
  by (simp_all add: mapStatusToInt_def Get_def statusMap_int_def)

text \<open>
  The part of C10 that holds: on the five defined entries the two functions are inverse
  to each other, a number passes through \<open>mapStatusToInt\<close> unchanged,
  \<open>mapStatusToInt "bogus"\<close> is 1, and \<open>mapStatusToString\<close> of every number
  outside \<open>1..5\<close> is \<open>"Pending"\<close>.
\<close>

lemma status_codec_defined_entries:
  "(\<forall>c \<in> {1, 2, 3, 4, 5}. mapStatusToInt (mapStatusToString c) = JNum c)
   \<and> (\<forall>l \<in> {''Pending'', ''Confirmed'', ''In Transit'', ''Delivered'', ''Cancelled''}.
        \<exists>c. mapStatusToInt (JStr l) = JNum c \<and> mapStatusToString c = JStr l)
   \<and> (\<forall>n. mapStatusToInt (JNum n) = JNum n)
   \<and> mapStatusToInt (JStr ''bogus'') = JNum 1
   \<and> (\<forall>c. c < 1 \<or> 5 < c \<longrightarrow> mapStatusToString c = JStr ''Pending'')"
  by (simp add: mapStatusToString_defined mapStatusToInt_defined mapStatusToInt_number
        mapStatusToInt_bogus mapStatusToString_default)

text \<open>
  C10 (the code departs from the claim). \<open>statusMap[statusString] || 1\<close> reads the
  property through the prototype chain of the object literal, so a label that names a
  property of \<open>Object.prototype\<close> is not defaulted to 1: for \<open>"constructor"\<close> the
  result is the function \<open>Object\<close>, for \<open>"toString"\<close> the function
  \<open>Object.prototype.toString\<close>, for \<open>"__proto__"\<close> the object
  \<open>Object.prototype\<close>. None of these is one of the five labels.
\<close>

theorem mapStatusToInt_inherited_name:
  "mapStatusToInt (JStr ''constructor'') = JFunction ''Object''
   \<and> mapStatusToInt (JStr ''toString'') = JFunction ''toString''
   \<and> mapStatusToInt (JStr ''__proto__'') = JObjectPrototype
   \<and> mapStatusToInt (JStr ''constructor'') \<noteq> JNum 1"
  by (simp add: mapStatusToInt_def Get_def statusMap_int_def inherited_def
        Object_prototype_functions_def)


section \<open>Properties of the attestation codec\<close>

text \<open>
  The two places where the serializer spells out an inherited property agree with
  \<open>Get\<close>: for a name \<open>P\<close> of a duplicate-free property list, what is written
  for \<open>P\<close> is the text of \<open>Get props P\<close>.
\<close>

lemma map_filter_only:
  assumes "distinct K" and "x \<in> set K"
  shows "List.map_filter (\<lambda>P. if P = x then Some (f P) else None) K = [f x]"
  using assms
proof (induction K)
  case Nil
  then show ?case by simp
next
  case (Cons a K)
  show ?case
  proof (cases "a = x")
    case True
    with Cons.prems have "x \<notin> set K" by simp
    then have "List.map_filter (\<lambda>P. if P = x then Some (f P) else None) K = []"
      by (induction K) (auto simp: List.map_filter_simps)
    with True show ?thesis by (simp add: List.map_filter_simps)
  next
    case False
    with Cons show ?thesis by (simp add: List.map_filter_simps)
  qed
qed

lemma SerializeJSONProperty_Object_prototype:
  assumes "distinct K" and "''__proto__'' \<in> set K"
  shows "SerializeJSONProperty K JObjectPrototype
           = Some (CHR ''{'' # QuoteJSONString ''__proto__'' @ '':null}'')"
proof -
  have "(\<lambda>P. member P (if P = ''__proto__'' then Some ''null'' else None))
      = (\<lambda>P. if P = ''__proto__'' then Some (QuoteJSONString P @ '':null'') else None)"
    by (rule ext) (simp add: member_def)
  with map_filter_only [OF assms, of "\<lambda>P. QuoteJSONString P @ '':null''"]
  show ?thesis by simp
qed

lemma SerializeJSONObject_reads_Get:
  assumes "distinct K" and "P \<in> set K"
  shows "(case map_of props P of
            Some v \<Rightarrow> SerializeJSONProperty K v
          | None \<Rightarrow>
              (if P = ''__proto__''
               then Some (CHR ''{'' # QuoteJSONString ''__proto__'' @ '':null}'')
               else None))
       = SerializeJSONProperty K (Get props P)"
proof (cases "map_of props P")
  case (Some v)
  then show ?thesis by (simp add: Get_def)
next
  case None
  show ?thesis
  proof (cases "P = ''__proto__''")
    case True
    with assms have "SerializeJSONProperty K JObjectPrototype
        = Some (CHR ''{'' # QuoteJSONString ''__proto__'' @ '':null}'')"
      by (intro SerializeJSONProperty_Object_prototype) simp_all
    with None True show ?thesis by (simp add: Get_def inherited_def)
  next
    case False
    have "SerializeJSONProperty K (inherited P) = None"
    proof (cases "map_of Object_prototype_functions P")
      case None
      with False show ?thesis by (simp add: inherited_def)
    next
      case (Some f)
      then have "(P, f) \<in> set Object_prototype_functions" by (rule map_of_SomeD)
      then obtain name where "f = JFunction name"
        by (auto simp: Object_prototype_functions_def)
      with Some False show ?thesis by (simp add: inherited_def)
    qed
    with None False show ?thesis by (simp add: Get_def)
  qed
qed

lemma SerializeJSONProperty_object_defined:
  "\<exists>s. SerializeJSONProperty K (JObj props) = Some s"
  by simp

lemma dataString_defined: "\<exists>s. dataString packingListData = Some s"
  by (simp add: dataString_def JSON_stringify_def Let_def)

lemma delete_set_property:
  "delete_property (set_property props P v) P = delete_property props P"
  by (induction props) (auto simp: delete_property_def)

lemma map_of_set_property: "map_of (set_property props P v) P = Some v"
  by (induction props) auto

lemma Get_set_property: "Get (set_property props P v) P = v"
  by (simp add: Get_def map_of_set_property)

lemma dataString_set_securityHash:
  "dataString (set_property packingListData ''securityHash'' v) = dataString packingListData"
  by (simp add: dataString_def delete_set_property)

lemma generateSecurityHash_set_securityHash:
  "generateSecurityHash hmac env (set_property packingListData ''securityHash'' v)
     = generateSecurityHash hmac env packingListData"
  by (simp add: generateSecurityHash_def dataString_set_securityHash)

lemma generateSecurityHash_defined:
  "\<exists>seal. generateSecurityHash hmac env packingListData = Inr seal"
proof -
  obtain s where "dataString packingListData = Some s"
    using dataString_defined by blast
  then show ?thesis by (simp add: generateSecurityHash_def)
qed

lemma verifySecurityHash_carrying_seal:
  assumes "generateSecurityHash hmac env packingListData = Inr seal"
  shows "verifySecurityHash hmac env (set_property packingListData ''securityHash'' (JStr seal))
           = Verification True (JStr seal) seal"
  using assms
  by (simp add: verifySecurityHash_def Get_set_property generateSecurityHash_set_securityHash)

lemma verifySecurityHash_same_dataString:
  assumes "dataString tampered = dataString original"
      and "generateSecurityHash hmac env original = Inr seal"
  shows "verifySecurityHash hmac env (set_property tampered ''securityHash'' (JStr seal))
           = Verification True (JStr seal) seal"
proof -
  from assms have "generateSecurityHash hmac env tampered = Inr seal"
    by (simp add: generateSecurityHash_def)
  then show ?thesis by (rule verifySecurityHash_carrying_seal)
qed

text \<open>
  C8. For every payload, generating the seal succeeds, and verifying the payload that
  carries this seal in its \<open>securityHash\<close> property recomputes the same digest and
  reports \<open>isValid = true\<close> (whatever the digest function and the configured secret,
  and whether or not the payload already had a \<open>securityHash\<close>, which is overwritten).
\<close>

theorem verify_generate_round_trip:
  "\<exists>seal. generateSecurityHash hmac env payload = Inr seal
     \<and> verifySecurityHash hmac env (set_property payload ''securityHash'' (JStr seal))
         = Verification True (JStr seal) seal"
proof -
  obtain seal where gen: "generateSecurityHash hmac env payload = Inr seal"
    using generateSecurityHash_defined by blast
  from gen have "verifySecurityHash hmac env (set_property payload ''securityHash'' (JStr seal))
          = Verification True (JStr seal) seal"
    by (rule verifySecurityHash_carrying_seal)
  with gen show ?thesis by blast
qed

lemma scenario_B_same_dataString:
  "dataString scenario_B_tampered = dataString scenario_B_payload"
  by (simp add: dataString_def scenario_B_payload_def scenario_B_tampered_def
        delete_property_def Object_keys_def JSON_stringify_def member_def List.map_filter_def)

text \<open>
  C6 (the code departs from the claim). The replacer array holds the names of the top-level
  properties only, and \<open>JSON.stringify\<close> applies it at every depth, so \<open>qty\<close> is
  never part of the signed text: the canonical form of the Scenario B payload is
  \<open>{"lineItems":[{}],"refNumber":"R1"}\<close>, before and after the quantity is changed,
  and verifying the tampered payload against the original seal reports \<open>isValid = true\<close>.
\<close>

theorem tampered_quantity_verifies:
  "dataString scenario_B_payload
     = Some (CHR ''{'' # QuoteJSONString ''lineItems'' @ '':[{}],''
              @ QuoteJSONString ''refNumber'' @ '':'' @ QuoteJSONString ''R1'' @ ''}'')
   \<and> (\<exists>seal1. generateSecurityHash hmac env scenario_B_payload = Inr seal1
        \<and> verifySecurityHash hmac env
             (set_property scenario_B_tampered ''securityHash'' (JStr seal1))
            = Verification True (JStr seal1) seal1)"
proof -
  have canon: "dataString scenario_B_payload
     = Some (CHR ''{'' # QuoteJSONString ''lineItems'' @ '':[{}],''
              @ QuoteJSONString ''refNumber'' @ '':'' @ QuoteJSONString ''R1'' @ ''}'')"
    by (simp add: dataString_def scenario_B_payload_def
          delete_property_def Object_keys_def JSON_stringify_def member_def List.map_filter_def)
  obtain seal1 where gen: "generateSecurityHash hmac env scenario_B_payload = Inr seal1"
    using generateSecurityHash_defined by blast
  from scenario_B_same_dataString gen
  have "verifySecurityHash hmac env
          (set_property scenario_B_tampered ''securityHash'' (JStr seal1))
        = Verification True (JStr seal1) seal1"
    by (rule verifySecurityHash_same_dataString)
  with gen canon show ?thesis by blast
qed

text \<open>
  The half of C7 that holds: two payloads that differ only in the order in which keys
  were inserted, at any depth, have the same canonical form and the same seal.
\<close>

lemma reordered_same_text:
  "reordered v w \<Longrightarrow> SerializeJSONProperty K v = SerializeJSONProperty K w"
proof (induction rule: reordered.induct)
  case (same v)
  show ?case by simp
next
  case (arrays xs ys)
  then have "map (\<lambda>x. case SerializeJSONProperty K x of None \<Rightarrow> ''null'' | Some s \<Rightarrow> s) xs
           = map (\<lambda>x. case SerializeJSONProperty K x of None \<Rightarrow> ''null'' | Some s \<Rightarrow> s) ys"
    by (induction xs ys rule: list_all2_induct) simp_all
  then show ?case by simp
next
  case (objects ps qs)
  have "(case map_of ps P of
           Some v \<Rightarrow> SerializeJSONProperty K v
         | None \<Rightarrow> (if P = ''__proto__''
                  then Some (CHR ''{'' # QuoteJSONString ''__proto__'' @ '':null}'')
                  else None))
      = (case map_of qs P of
           Some v \<Rightarrow> SerializeJSONProperty K v
         | None \<Rightarrow> (if P = ''__proto__''
                  then Some (CHR ''{'' # QuoteJSONString ''__proto__'' @ '':null}'')
                  else None))" for P
  proof (cases "P \<in> set (map fst ps)")
    case True
    with objects.IH obtain v w where "map_of ps P = Some v" "map_of qs P = Some w"
      "SerializeJSONProperty K v = SerializeJSONProperty K w"
      by blast
    then show ?thesis by simp
  next
    case False
    with objects.hyps have "P \<notin> set (map fst ps)" "P \<notin> set (map fst qs)" by simp_all
    then have "map_of ps P = None" "map_of qs P = None"
      by (simp_all add: map_of_eq_None_iff)
    then show ?thesis by simp
  qed
  then show ?case by simp
qed

lemma sort_remdups_set: "set xs = set ys \<Longrightarrow> sort (remdups xs) = sort (remdups ys)"
  by (rule sorted_distinct_set_unique) simp_all

lemma map_of_delete_property:
  "map_of (delete_property ps P) k = (if k = P then None else map_of ps k)"
  by (induction ps) (auto simp: delete_property_def)

lemma keys_delete_property:
  "set (map fst (delete_property ps P)) = set (map fst ps) - {P}"
  by (auto simp: delete_property_def)

lemma reordered_delete_property:
  assumes "reordered (JObj ps) (JObj qs)"
  shows "reordered (JObj (delete_property ps P)) (JObj (delete_property qs P))"
  using assms
proof (cases rule: reordered.cases)
  case same
  then show ?thesis by (simp add: reordered.same)
next
  case objects
  have keys: "set (map fst (delete_property ps P)) = set (map fst (delete_property qs P))"
    using objects(1) by (simp only: keys_delete_property)
  have "\<exists>v w. map_of (delete_property ps P) k = Some v
            \<and> map_of (delete_property qs P) k = Some w \<and> reordered v w"
    if "k \<in> set (map fst (delete_property ps P))" for k
  proof -
    from that have "k \<in> set (map fst ps)" "k \<noteq> P"
      by (simp_all only: keys_delete_property) auto
    with objects(2) obtain v w where
      "map_of ps k = Some v" "map_of qs k = Some w" "reordered v w"
      by blast
    with \<open>k \<noteq> P\<close> show ?thesis
      by (simp add: map_of_delete_property)
  qed
  with keys show ?thesis by (intro reordered.objects) blast+
qed

lemma reordered_keys:
  assumes "reordered (JObj ps) (JObj qs)"
  shows "set (map fst ps) = set (map fst qs)"
  using assms by (cases rule: reordered.cases) auto

lemma reordered_same_seal:
  assumes "reordered (JObj p) (JObj q)"
  shows "generateSecurityHash hmac env p = generateSecurityHash hmac env q"
proof -
  let ?p = "delete_property p ''securityHash''" and ?q = "delete_property q ''securityHash''"
  from assms have r: "reordered (JObj ?p) (JObj ?q)" by (rule reordered_delete_property)
  then have "set (map fst ?p) = set (map fst ?q)" by (rule reordered_keys)
  then have "sort (Object_keys ?p) = sort (Object_keys ?q)"
    unfolding Object_keys_def by (rule sort_remdups_set)
  moreover have "SerializeJSONProperty (sort (Object_keys ?p)) (JObj ?p)
                   = SerializeJSONProperty (sort (Object_keys ?p)) (JObj ?q)"
    using r by (rule reordered_same_text)
  ultimately have "dataString p = dataString q"
    by (simp add: dataString_def JSON_stringify_def Let_def del: SerializeJSONProperty.simps)
  then show ?thesis by (simp add: generateSecurityHash_def)
qed

lemma reordered_same_seal_example: "generateSecurityHash hmac env [(''a'', JNum 1), (''b'', JObj [(''x'', JNull), (''a'', JStr ''s'')])]
   = generateSecurityHash hmac env [(''b'', JObj [(''a'', JStr ''s''), (''x'', JNull)]), (''a'', JNum 1)]"
  by (rule reordered_same_seal) (auto intro!: reordered.intros)

text \<open>
  C7 (the code departs from the claim). Two payloads that differ in a nested field,
  \<open>{order: {number: "A"}}\<close> and \<open>{order: {number: "B"}}\<close>, have one canonical form,
  \<open>{"order":{}}\<close>, and so one seal: nested keys are not sorted into the text, they are
  left out of it unless a top-level property has the same name.
\<close>

theorem nested_values_share_canonical_form:
  "[(''order'', JObj [(''number'', JStr ''A'')])] \<noteq> [(''order'', JObj [(''number'', JStr ''B'')])]
   \<and> dataString [(''order'', JObj [(''number'', JStr ''A'')])]
       = Some (CHR ''{'' # QuoteJSONString ''order'' @ '':{}}'')
   \<and> dataString [(''order'', JObj [(''number'', JStr ''B'')])]
       = Some (CHR ''{'' # QuoteJSONString ''order'' @ '':{}}'')
   \<and> generateSecurityHash hmac env [(''order'', JObj [(''number'', JStr ''A'')])]
       = generateSecurityHash hmac env [(''order'', JObj [(''number'', JStr ''B'')])]"
  by (simp add: generateSecurityHash_def dataString_def
        delete_property_def Object_keys_def JSON_stringify_def member_def List.map_filter_def)

text \<open>
  C9 (the claim as stated fails). With \<open>VPL_SECRET_KEY\<close> unset, or set to the empty
  string, the secret is the compiled-in default.
\<close>

theorem default_secret_used_counterexample:
  "VPL_SECRET_KEY Map.empty = ''your-super-secret-vpl-key-change-this-in-production''
   \<and> VPL_SECRET_KEY [''VPL_SECRET_KEY'' \<mapsto> ''''] = ''your-super-secret-vpl-key-change-this-in-production''"
  by (simp add: VPL_SECRET_KEY_def default_secret_def)

text \<open>
  C9, amended. Nothing fails when the secret is missing: if \<open>VPL_SECRET_KEY\<close> is unset
  or empty, every seal is the digest of the canonical form under the compiled-in default
  secret; if it is set to a non-empty string, every seal is the digest under that string.
\<close>

theorem seal_key_is_configured_or_default:
  "(env ''VPL_SECRET_KEY'' = None \<or> env ''VPL_SECRET_KEY'' = Some [] \<longrightarrow>
      (\<exists>s. dataString payload = Some s
         \<and> generateSecurityHash hmac env payload = Inr (hmac default_secret s)))
   \<and> (\<forall>k. env ''VPL_SECRET_KEY'' = Some k \<and> k \<noteq> [] \<longrightarrow>
      (\<exists>s. dataString payload = Some s
         \<and> generateSecurityHash hmac env payload = Inr (hmac k s)))"
proof -
  obtain s where s: "dataString payload = Some s"
    using dataString_defined by blast
  show ?thesis
    by (auto simp: generateSecurityHash_def VPL_SECRET_KEY_def s)
qed

theorem seal_key_is_configured_or_default_witness:
  "\<forall>hmac. (\<exists>s. dataString scenario_B_payload = Some s
         \<and> generateSecurityHash hmac Map.empty scenario_B_payload = Inr (hmac default_secret s))
     \<and> (\<exists>s. dataString scenario_B_payload = Some s
         \<and> generateSecurityHash hmac [''VPL_SECRET_KEY'' \<mapsto> ''k1''] scenario_B_payload
             = Inr (hmac ''k1'' s))"
proof
  fix hmac :: "string \<Rightarrow> string \<Rightarrow> string"
  show "(\<exists>s. dataString scenario_B_payload = Some s
         \<and> generateSecurityHash hmac Map.empty scenario_B_payload = Inr (hmac default_secret s))
     \<and> (\<exists>s. dataString scenario_B_payload = Some s
         \<and> generateSecurityHash hmac [''VPL_SECRET_KEY'' \<mapsto> ''k1''] scenario_B_payload
             = Inr (hmac ''k1'' s))"
    using seal_key_is_configured_or_default [of Map.empty scenario_B_payload hmac]
          seal_key_is_configured_or_default
            [of "[''VPL_SECRET_KEY'' \<mapsto> ''k1'']" scenario_B_payload hmac]
    by simp
qed


section \<open>Properties of the milestone engine\<close>

subsection \<open>Each endpoint is an instance of the common sequence\<close>

lemma and_then_resolve: "and_then (resolve x) k = k x"
  by (rule ext) (simp add: and_then_def resolve_def)

lemma confirm_order_endpoint:
  "confirm_order fault now req d =
     (if falsy (body_orderid req) \<or> falsy (body_userid req)
      then (Response 400 (Error ''orderid and userid are required''), d)
      else endpoint (constants_of Confirm_order) fault now req d)"
  by (simp add: confirm_order_def endpoint_def optional_def and_then_resolve Let_def
        cong: if_cong)

lemma ready_to_ship_endpoint: "ready_to_ship = endpoint (constants_of Ready_to_ship)"
  by (intro ext)
     (simp add: ready_to_ship_def endpoint_def optional_def and_then_resolve Let_def
        cong: if_cong)

lemma goods_shipped_endpoint: "goods_shipped = endpoint (constants_of Goods_shipped)"
  by (intro ext)
     (simp add: goods_shipped_def endpoint_def optional_def and_then_resolve Let_def
        cong: if_cong)

lemma goods_arrived_endpoint: "goods_arrived = endpoint (constants_of Goods_arrived)"
  by (intro ext)
     (simp add: goods_arrived_def endpoint_def optional_def and_then_resolve Let_def
        cong: if_cong)

lemma goods_received_endpoint: "goods_received = endpoint (constants_of Goods_received)"
  by (intro ext)
     (simp add: goods_received_def endpoint_def optional_def and_then_resolve Let_def
        cong: if_cong)

lemma handle_endpoint:
  "handle a fault now req d =
     (if a = Confirm_order \<and> (falsy (body_orderid req) \<or> falsy (body_userid req))
      then (Response 400 (Error ''orderid and userid are required''), d)
      else endpoint (constants_of a) fault now req d)"
  by (cases a)
     (simp_all add: confirm_order_endpoint ready_to_ship_endpoint goods_shipped_endpoint
        goods_arrived_endpoint goods_received_endpoint del: constants_of.simps)

subsection \<open>The common sequence, path by path\<close>

lemmas engine_defs = try_catch_def and_then_def query_def resolve_def connect_def release_def
  BEGIN_def COMMIT_def ROLLBACK_def select_count_milestones_def insert_milestone_def
  insert_communication_def update_poinvoice_def update_orders_def current_def write_tables_def
  optional_def int4_parameter_def

lemma order_exists_update_orders [simp]:
  "order_exists (map (\<lambda>r. if P r then r\<lparr>orderstatus := s\<rparr> else r) os) oid
     = order_exists os oid"
proof -
  have "map orderid (map (\<lambda>r. if P r then r\<lparr>orderstatus := s\<rparr> else r) os) = map orderid os"
    by (induction os) auto
  then show ?thesis
    unfolding order_exists_def by (simp del: set_map map_map)
qed

text \<open>
  What a transaction hides. A statement on a connection that is not in a transaction
  writes the committed tables at once; between \<open>BEGIN\<close> and \<open>COMMIT\<close> it
  writes the connection's own copy, and the committed tables stay as they were.
\<close>

lemma update_outside_transaction:
  "int4 oid \<Longrightarrow>
   committed (db (snd (update_poinvoice (Some oid) s now (connect d))))
     = (committed d)\<lparr>poinvoice :=
         map (\<lambda>i. if invoice_orderid i = oid
                   then i\<lparr>expectedstockstatus := s, invoice_updatedat := now\<rparr> else i)
             (poinvoice (committed d))\<rparr>"
  by (simp add: update_poinvoice_def int4_parameter_def connect_def current_def
        write_tables_def)

lemma update_inside_transaction:
  "int4 oid \<Longrightarrow>
   committed (db (snd (update_poinvoice (Some oid) s now (snd (BEGIN (connect d))))))
     = committed d
   \<and> current (snd (update_poinvoice (Some oid) s now (snd (BEGIN (connect d)))))
     = (committed d)\<lparr>poinvoice :=
         map (\<lambda>i. if invoice_orderid i = oid
                   then i\<lparr>expectedstockstatus := s, invoice_updatedat := now\<rparr> else i)
             (poinvoice (committed d))\<rparr>"
  by (simp add: update_poinvoice_def int4_parameter_def BEGIN_def connect_def current_def
        write_tables_def)

text \<open>Whatever is answered other than 200, the committed tables are as before.\<close>

lemma endpoint_failure:
  assumes "endpoint k fault now req d = (res, d')" and "statusCode res \<noteq> 200"
  shows "committed d' = committed d"
  using assms
  by (auto simp: endpoint_def engine_defs Let_def split: option.splits if_splits)

text \<open>
  When the check refuses, nothing at all is written, and the answer is 400 with the
  endpoint's refusal unless \<open>BEGIN\<close> or the \<open>SELECT\<close> itself was rejected: from
  outside, or because the \<open>orderid\<close> of the request is no \<open>INT\<close>, and then the
  answer is 500.
\<close>

lemma endpoint_refused_unchanged:
  assumes "refused k (length (filter (check k (body_orderid req)) (milestones (committed d))))"
  shows "snd (endpoint k fault now req d) = d"
proof (cases "fault Begin")
  case (Some e)
  then show ?thesis by (simp add: endpoint_def engine_defs Let_def)
next
  case no_begin: None
  show ?thesis
  proof (cases "fault Select_milestones")
    case (Some e)
    with no_begin show ?thesis by (simp add: endpoint_def engine_defs Let_def)
  next
    case no_select: None
    show ?thesis
    proof (cases "body_orderid req")
      case None
      with no_begin no_select assms show ?thesis by (simp add: endpoint_def engine_defs Let_def)
    next
      case (Some oid)
      show ?thesis
      proof (cases "int4 oid")
        case True
        with no_begin no_select Some assms show ?thesis
          by (simp add: endpoint_def engine_defs Let_def)
      next
        case False
        with no_begin no_select Some show ?thesis
          by (simp add: endpoint_def engine_defs Let_def)
      qed
    qed
  qed
qed

lemma endpoint_refused_answer:
  assumes "refused k (length (filter (check k (body_orderid req)) (milestones (committed d))))"
      and "fault Begin = None" and "fault Select_milestones = None"
      and "body_orderid req = None \<or> (\<exists>oid. body_orderid req = Some oid \<and> int4 oid)"
  shows "fst (endpoint k fault now req d) = Response 400 (Error (refusal k))"
  using assms
  by (auto simp: endpoint_def engine_defs Let_def)

lemma endpoint_refused:
  assumes "refused k (length (filter (check k (body_orderid req)) (milestones (committed d))))"
  shows "snd (endpoint k fault now req d) = d
       \<and> (fault Begin = None \<and> fault Select_milestones = None
            \<and> (\<forall>oid. body_orderid req = Some oid \<longrightarrow> int4 oid)
            \<longrightarrow> fst (endpoint k fault now req d) = Response 400 (Error (refusal k)))"
proof (intro conjI impI)
  show "snd (endpoint k fault now req d) = d"
    using assms by (rule endpoint_refused_unchanged)
next
  assume c: "fault Begin = None \<and> fault Select_milestones = None
            \<and> (\<forall>oid. body_orderid req = Some oid \<longrightarrow> int4 oid)"
  then have "body_orderid req = None \<or> (\<exists>oid. body_orderid req = Some oid \<and> int4 oid)"
    by (cases "body_orderid req") simp_all
  with assms c show "fst (endpoint k fault now req d) = Response 400 (Error (refusal k))"
    by (intro endpoint_refused_answer) simp_all
qed

lemma endpoint_orderid_out_of_range:
  assumes "body_orderid req = Some oid" and "\<not> int4 oid"
  shows "snd (endpoint k fault now req d) = d
       \<and> statusCode (fst (endpoint k fault now req d)) = 500"
  using assms
  by (auto simp: endpoint_def engine_defs Let_def split: option.splits if_splits)

text \<open>
  Two requests with a number outside \<open>INT\<close>, on the database of Scenario A: an
  \<open>orderid\<close> of \<open>2^31\<close> is rejected by the \<open>SELECT\<close>; a \<open>userid\<close> of
  \<open>2^31\<close> passes the check of a confirmed order and is rejected by the
  \<open>INSERT\<close>, after the invoices were updated, and the transaction is rolled back.
\<close>

lemma out_of_range_requests:
  "handle Ready_to_ship no_fault 1
       \<lparr>body_orderid = Some 2147483648, body_userid = Some 7\<rparr> scenario_A_database
     = (Response 500 (Error (out_of_range 2147483648)), scenario_A_database)"
  "handle Ready_to_ship no_fault 2
       \<lparr>body_orderid = Some 42, body_userid = Some 2147483648\<rparr>
       (run scenario_A_database [scenario_A_call Confirm_order 1])
     = (Response 500 (Error (out_of_range 2147483648)),
        run scenario_A_database [scenario_A_call Confirm_order 1])"
  by (simp_all add: scenario_A_database_def scenario_A_call_def scenario_A_request_def
        no_fault_def confirm_order_def ready_to_ship_def engine_defs
        falsy_def order_exists_def int4_def Let_def)

text \<open>What an answer of 200 tells about the request.\<close>

lemma endpoint_success_faults:
  assumes "endpoint k fault now req d = (res, d')" and "statusCode res = 200"
  shows "faultless k fault"
  using assms unfolding faultless_def
  by (auto simp: endpoint_def engine_defs Let_def split: option.splits if_splits)

lemma endpoint_success_body:
  assumes "endpoint k fault now req d = (res, d')" and "statusCode res = 200"
  shows "\<exists>oid uid. body_orderid req = Some oid \<and> body_userid req = Some uid"
  using assms
  by (auto simp: endpoint_def engine_defs Let_def split: option.splits if_splits)

lemma endpoint_success_check:
  assumes "endpoint k fault now req d = (res, d')" and "statusCode res = 200"
  shows "\<not> refused k (length (filter (check k (body_orderid req)) (milestones (committed d))))"
  using assms
  by (auto simp: endpoint_def engine_defs Let_def split: option.splits if_splits)

lemma endpoint_success_int4:
  assumes "endpoint k fault now req d = (res, d')" and "statusCode res = 200"
      and "body_orderid req = Some oid" and "body_userid req = Some uid"
  shows "int4 oid \<and> int4 uid"
  using assms
  by (auto simp: endpoint_def engine_defs Let_def split: option.splits if_splits)

lemma endpoint_success_order:
  assumes "endpoint k fault now req d = (res, d')" and "statusCode res = 200"
      and "body_orderid req = Some oid"
  shows "order_exists (orders (committed d)) oid"
  using assms
  by (auto simp: endpoint_def engine_defs Let_def order_exists_def
        split: option.splits if_splits)

text \<open>The one path that commits, with the database it leaves.\<close>

lemma endpoint_runs:
  assumes "faultless k fault" and "body_orderid req = Some oid" and "body_userid req = Some uid"
      and "int4 oid" and "int4 uid"
      and "order_exists (orders (committed d)) oid"
      and "\<not> refused k (length (filter (check k (Some oid)) (milestones (committed d))))"
  shows "endpoint k fault now req d =
     (Response 200 (success k (milestones_milestoneid_seq d + 1)),
      \<lparr>committed = committed_after k now oid uid d,
       milestones_milestoneid_seq = milestones_milestoneid_seq d + 1,
       communications_communicationid_seq = communications_communicationid_seq d + 1\<rparr>)"
proof (cases "invoice_status k"; cases "order_status k")
qed (use assms in \<open>simp_all add: endpoint_def engine_defs Let_def
       faultless_def committed_after_def\<close>)

lemma endpoint_success:
  assumes "endpoint k fault now req d = (res, d')" and "statusCode res = 200"
  shows "\<exists>oid uid. body_orderid req = Some oid \<and> body_userid req = Some uid
           \<and> int4 oid \<and> int4 uid
           \<and> faultless k fault \<and> order_exists (orders (committed d)) oid
           \<and> \<not> refused k (length (filter (check k (Some oid)) (milestones (committed d))))
           \<and> committed d' = committed_after k now oid uid d"
proof -
  from assms obtain oid uid where
    body: "body_orderid req = Some oid" "body_userid req = Some uid"
    using endpoint_success_body by blast
  have range: "int4 oid" "int4 uid"
    using endpoint_success_int4 [OF assms body] by simp_all
  have faults: "faultless k fault"
    using assms by (rule endpoint_success_faults)
  have ord: "order_exists (orders (committed d)) oid"
    using assms body(1) by (rule endpoint_success_order)
  have chk: "\<not> refused k (length (filter (check k (Some oid)) (milestones (committed d))))"
    using endpoint_success_check [OF assms] body(1) by simp
  from endpoint_runs [OF faults body range ord chk, of now] assms(1)
  have "committed d' = committed_after k now oid uid d" by auto
  with body range faults ord chk show ?thesis by blast
qed

subsection \<open>The endpoints against the tables of the specification\<close>

lemma constants_of_spec:
  "new_type (constants_of a) = milestone_type a"
  "invoice_status (constants_of a) = mapped_invoice_status a"
  "order_status (constants_of a) = mapped_order_status a"
  by (cases a; simp)+

lemma refusal_precondition_message:
  "predecessor a = Some p \<Longrightarrow> refusal (constants_of a) = precondition_message a"
  by (cases a) simp_all

lemma length_filter_0: "(length (filter P xs) = 0) = (filter P xs = [])"
  by simp

lemma refused_enabled:
  "refused (constants_of a) (length (filter (check (constants_of a) (Some oid)) (milestones t)))
     = (\<not> enabled a oid t)"
  by (cases a) (simp_all add: enabled_def rows_of_def completed_rows_def conj_commute conj_left_commute)

lemma refused_no_orderid:
  "predecessor a = Some p \<Longrightarrow>
   refused (constants_of a) (length (filter (check (constants_of a) None) (milestones t)))"
  by (cases a) simp_all

lemma faultless_statements_of:
  "faultless (constants_of a) fault = (\<forall>s \<in> set (statements_of a). fault s = None)"
  by (cases a) (auto simp: faultless_def)

lemma committed_after_transition:
  "transition a oid uid now (committed d) (committed_after (constants_of a) now oid uid d)"
  by (simp add: transition_def committed_after_def cascade_invoices_def cascade_orders_def
        constants_of_spec del: constants_of.simps)

text \<open>
  Every answer of every endpoint: either it is not 200 and the committed tables are
  untouched, or it is 200, no statement was rejected, the request named an existing
  order and a user, the check on the stored milestones passed, and the committed tables
  have made exactly the transition of the action.
\<close>

lemma handle_outcome:
  assumes "handle a fault now req d = (res, d')"
  shows "(statusCode res \<noteq> 200 \<and> committed d' = committed d)
       \<or> (statusCode res = 200 \<and> (\<forall>s \<in> set (statements_of a). fault s = None)
           \<and> (\<exists>oid uid. body_orderid req = Some oid \<and> body_userid req = Some uid
                 \<and> enabled a oid (committed d) \<and> order_exists (orders (committed d)) oid
                 \<and> transition a oid uid now (committed d) (committed d')))"
proof (cases "a = Confirm_order \<and> (falsy (body_orderid req) \<or> falsy (body_userid req))")
  case True
  with assms have "res = Response 400 (Error ''orderid and userid are required'')" "d' = d"
    by (simp_all add: handle_endpoint del: handle.simps)
  then show ?thesis by simp
next
  case False
  with assms have run: "endpoint (constants_of a) fault now req d = (res, d')"
    by (simp add: handle_endpoint del: handle.simps constants_of.simps)
  show ?thesis
  proof (cases "statusCode res = 200")
    case True
    from endpoint_success [OF run True] obtain oid uid where
      body: "body_orderid req = Some oid" "body_userid req = Some uid"
      and faults: "faultless (constants_of a) fault"
      and ord: "order_exists (orders (committed d)) oid"
      and chk: "\<not> refused (constants_of a)
                  (length (filter (check (constants_of a) (Some oid)) (milestones (committed d))))"
      and after: "committed d' = committed_after (constants_of a) now oid uid d"
      by blast
    from chk have "enabled a oid (committed d)"
      by (simp add: refused_enabled del: constants_of.simps)
    moreover from after have "transition a oid uid now (committed d) (committed d')"
      by (simp add: committed_after_transition del: constants_of.simps)
    moreover from faults have "\<forall>s \<in> set (statements_of a). fault s = None"
      by (simp add: faultless_statements_of del: constants_of.simps)
    ultimately show ?thesis using True body ord by blast
  next
    case False
    with run have "committed d' = committed d" by (rule endpoint_failure)
    with False show ?thesis by simp
  qed
qed

text \<open>And an endpoint does answer 200 when nothing stands in its way.\<close>

lemma handle_succeeds:
  assumes "\<forall>s \<in> set (statements_of a). fault s = None"
      and "body_orderid req = Some oid" and "body_userid req = Some uid"
      and "oid \<noteq> 0" and "uid \<noteq> 0" and "int4 oid" and "int4 uid"
      and "order_exists (orders (committed d)) oid" and "enabled a oid (committed d)"
  shows "statusCode (fst (handle a fault now req d)) = 200"
proof -
  have "faultless (constants_of a) fault"
    using assms(1) by (simp add: faultless_statements_of del: constants_of.simps)
  moreover have "\<not> refused (constants_of a)
      (length (filter (check (constants_of a) (Some oid)) (milestones (committed d))))"
    using assms(9) by (simp add: refused_enabled del: constants_of.simps)
  ultimately have "endpoint (constants_of a) fault now req d =
     (Response 200 (success (constants_of a) (milestones_milestoneid_seq d + 1)),
      \<lparr>committed = committed_after (constants_of a) now oid uid d,
       milestones_milestoneid_seq = milestones_milestoneid_seq d + 1,
       communications_communicationid_seq = communications_communicationid_seq d + 1\<rparr>)"
    using assms(2,3,6,7,8) by (intro endpoint_runs)
  moreover have "\<not> falsy (body_orderid req)" "\<not> falsy (body_userid req)"
    using assms(2-5) by (simp_all add: falsy_def)
  ultimately show ?thesis
    by (simp add: handle_endpoint del: constants_of.simps handle.simps)
qed

text \<open>
  C3. For each of the four actions with a predecessor in the transition table
  (\<open>ready_to_ship\<close> after \<open>order_confirmed\<close>, \<open>goods_shipped\<close> after
  \<open>ready_to_ship\<close>, \<open>goods_arrived\<close> after \<open>goods_shipped\<close>, \<open>goods_received\<close>
  after \<open>goods_arrived\<close>): if the order of the request has no completed milestone of
  the predecessor type, the endpoint leaves the whole database as it was (orders,
  invoices, milestones, communications and both sequences), whatever is rejected from
  outside; and its answer is 400 with the endpoint's message naming the missing step,
  provided that the \<open>orderid\<close> of the request, if it has one, is an \<open>INT\<close> as the
  key of every order is, and that neither \<open>BEGIN\<close> nor the \<open>SELECT\<close> is rejected
  from outside. A request whose \<open>orderid\<close> is outside \<open>INT\<close> names no order: its
  \<open>SELECT\<close> is rejected and the answer is 500, still with nothing written.
\<close>

theorem predecessor_not_completed_refused:
  assumes "predecessor a = Some p"
      and "\<forall>oid. body_orderid req = Some oid \<longrightarrow> completed_rows (committed d) oid p = []"
  shows "snd (handle a fault now req d) = d
       \<and> (fault Begin = None \<and> fault Select_milestones = None
            \<and> (\<forall>oid. body_orderid req = Some oid \<longrightarrow> int4 oid)
            \<longrightarrow> fst (handle a fault now req d) = Response 400 (Error (precondition_message a)))
       \<and> ((\<exists>oid. body_orderid req = Some oid \<and> \<not> int4 oid)
            \<longrightarrow> statusCode (fst (handle a fault now req d)) = 500)"
proof -
  from assms(1) have a: "a \<noteq> Confirm_order" by auto
  have "refused (constants_of a)
          (length (filter (check (constants_of a) (body_orderid req)) (milestones (committed d))))"
  proof (cases "body_orderid req")
    case None
    with assms(1) show ?thesis by (simp add: refused_no_orderid del: constants_of.simps)
  next
    case (Some oid)
    with assms have "\<not> enabled a oid (committed d)"
      by (simp add: enabled_def)
    with Some show ?thesis by (simp add: refused_enabled del: constants_of.simps)
  qed
  from endpoint_refused [OF this, of fault now] a assms(1)
  have "snd (handle a fault now req d) = d
       \<and> (fault Begin = None \<and> fault Select_milestones = None
            \<and> (\<forall>oid. body_orderid req = Some oid \<longrightarrow> int4 oid)
            \<longrightarrow> fst (handle a fault now req d) = Response 400 (Error (precondition_message a)))"
    by (simp add: handle_endpoint refusal_precondition_message
          del: constants_of.simps handle.simps)
  moreover have "statusCode (fst (handle a fault now req d)) = 500"
    if "body_orderid req = Some oid" "\<not> int4 oid" for oid
    using endpoint_orderid_out_of_range [OF that, of "constants_of a" fault now d] a
    by (simp add: handle_endpoint del: constants_of.simps handle.simps)
  ultimately show ?thesis by blast
qed

theorem predecessor_not_completed_refused_witness:
  "predecessor Ready_to_ship = Some ''order_confirmed''
   \<and> completed_rows (committed scenario_A_database) 42 ''order_confirmed'' = []
   \<and> int4 42
   \<and> handle Ready_to_ship no_fault 1 scenario_A_request scenario_A_database
       = (Response 400 (Error ''Order must be confirmed before marking as ready to ship''),
          scenario_A_database)
   \<and> \<not> int4 2147483648
   \<and> snd (handle Ready_to_ship no_fault 1
            \<lparr>body_orderid = Some 2147483648, body_userid = Some 7\<rparr> scenario_A_database)
       = scenario_A_database
   \<and> statusCode (fst (handle Ready_to_ship no_fault 1
            \<lparr>body_orderid = Some 2147483648, body_userid = Some 7\<rparr> scenario_A_database))
       = 500"
proof -
  let ?big = "\<lparr>body_orderid = Some 2147483648, body_userid = Some 7\<rparr>"
  have p: "predecessor Ready_to_ship = Some ''order_confirmed''" by simp
  have none: "completed_rows (committed scenario_A_database) oid ''order_confirmed'' = []"
    for oid
    by (simp add: completed_rows_def rows_of_def scenario_A_database_def)
  have range: "int4 42" "\<not> int4 2147483648"
    by (simp_all add: int4_def)
  have small: "\<forall>oid. body_orderid scenario_A_request = Some oid \<longrightarrow>
      completed_rows (committed scenario_A_database) oid ''order_confirmed'' = []"
    and big: "\<forall>oid. body_orderid ?big = Some oid \<longrightarrow>
      completed_rows (committed scenario_A_database) oid ''order_confirmed'' = []"
    by (simp_all add: none)
  from predecessor_not_completed_refused [OF p small, of no_fault 1] range(1)
  have "handle Ready_to_ship no_fault 1 scenario_A_request scenario_A_database
       = (Response 400 (Error ''Order must be confirmed before marking as ready to ship''),
          scenario_A_database)"
    by (simp add: no_fault_def scenario_A_request_def prod_eq_iff)
  moreover from predecessor_not_completed_refused [OF p big, of no_fault 1] range(2)
  have "snd (handle Ready_to_ship no_fault 1 ?big scenario_A_database) = scenario_A_database"
       "statusCode (fst (handle Ready_to_ship no_fault 1 ?big scenario_A_database)) = 500"
    by simp_all
  ultimately show ?thesis using p none range by simp
qed



text \<open>
  C5. Every call of every endpoint, whatever is rejected and at whichever statement,
  ends in one of two ways: it answers 200 and the committed tables have made the whole
  transition (the milestone row, the invoice cascade, the order cascade and the
  communication row, all four), or it answers something else and the committed tables
  are exactly as before. In particular, when any statement the endpoint issues is
  rejected, nothing of the transaction is kept: no invoice is left updated without its
  milestone row.
\<close>

theorem milestone_action_all_or_nothing:
  assumes "handle a fault now req d = (res, d')"
  shows "((statusCode res = 200
            \<and> (\<exists>oid uid. body_orderid req = Some oid \<and> body_userid req = Some uid
                  \<and> transition a oid uid now (committed d) (committed d')))
          \<or> (statusCode res \<noteq> 200 \<and> committed d' = committed d))
       \<and> ((\<exists>s \<in> set (statements_of a). fault s \<noteq> None)
            \<longrightarrow> statusCode res \<noteq> 200 \<and> committed d' = committed d)"
proof (cases "statusCode res = 200")
  case True
  with handle_outcome [OF assms] obtain oid uid where
    "\<forall>s \<in> set (statements_of a). fault s = None"
    "body_orderid req = Some oid" "body_userid req = Some uid"
    "transition a oid uid now (committed d) (committed d')"
    by auto
  with True show ?thesis by auto
next
  case False
  with handle_outcome [OF assms] have "committed d' = committed d" by auto
  with False show ?thesis by simp
qed

theorem milestone_action_all_or_nothing_witness:
  "handle Goods_shipped (no_fault(Insert_communication := Some ''connection lost'')) 3
       scenario_A_request
       (run scenario_A_database
          [scenario_A_call Confirm_order 1, scenario_A_call Ready_to_ship 2])
     = (Response 500 (Error ''connection lost''),
        (run scenario_A_database
          [scenario_A_call Confirm_order 1, scenario_A_call Ready_to_ship 2])
        \<lparr>milestones_milestoneid_seq := 3\<rparr>)
   \<and> Insert_communication \<in> set (statements_of Goods_shipped)
   \<and> committed ((run scenario_A_database
          [scenario_A_call Confirm_order 1, scenario_A_call Ready_to_ship 2])
        \<lparr>milestones_milestoneid_seq := 3\<rparr>)
       = committed (run scenario_A_database
          [scenario_A_call Confirm_order 1, scenario_A_call Ready_to_ship 2])"
proof -
  let ?d2 = "run scenario_A_database
               [scenario_A_call Confirm_order 1, scenario_A_call Ready_to_ship 2]"
  let ?fault = "no_fault(Insert_communication := Some ''connection lost'')"
  have step: "handle Goods_shipped ?fault 3 scenario_A_request ?d2
                = (Response 500 (Error ''connection lost''),
                   ?d2\<lparr>milestones_milestoneid_seq := 3\<rparr>)"
    by (simp add: scenario_A_database_def scenario_A_call_def scenario_A_request_def
          no_fault_def confirm_order_def ready_to_ship_def goods_shipped_def engine_defs
          falsy_def order_exists_def int4_def Let_def)
  have "\<exists>s \<in> set (statements_of Goods_shipped). ?fault s \<noteq> None"
    by simp
  with milestone_action_all_or_nothing [OF step]
  have "committed (?d2\<lparr>milestones_milestoneid_seq := 3\<rparr>) = committed ?d2"
    by blast
  with step show ?thesis by simp
qed

subsection \<open>Repeated actions\<close>

text \<open>
  \<open>confirm-order\<close> refuses an order that already has an \<open>order_confirmed\<close>
  milestone: nothing is written, and the answer is 400 unless the request is invalid
  (then 400 as well, with the validation message) or \<open>BEGIN\<close> or the \<open>SELECT\<close>
  is rejected (from outside, or for an \<open>orderid\<close> outside \<open>INT\<close>).
\<close>

lemma confirm_order_conflict:
  assumes "body_orderid req = Some oid"
      and "rows_of (committed d) oid ''order_confirmed'' \<noteq> []"
  shows "snd (confirm_order fault now req d) = d
       \<and> (\<not> falsy (body_orderid req) \<and> \<not> falsy (body_userid req)
            \<and> fault Begin = None \<and> fault Select_milestones = None \<and> int4 oid
            \<longrightarrow> fst (confirm_order fault now req d)
                  = Response 400 (Error ''Order already confirmed''))"
proof -
  from assms(2) have "\<not> enabled Confirm_order oid (committed d)"
    by (simp add: enabled_def)
  with assms(1) have "refused (constants_of Confirm_order)
      (length (filter (check (constants_of Confirm_order) (body_orderid req))
         (milestones (committed d))))"
    by (simp add: refused_enabled del: constants_of.simps)
  from endpoint_refused [OF this, of fault now] assms(1) show ?thesis
    by (simp add: confirm_order_endpoint)
qed

text \<open>
  C2 (the code departs from the claim). Only \<open>confirm-order\<close> looks for an existing
  row of its own type. After \<open>confirm-order\<close> and \<open>ready-to-ship\<close> for order 42,
  \<open>ready_to_ship\<close> is completed; a second \<open>ready-to-ship\<close> is answered 200, not a
  conflict, and writes again: a second completed \<open>ready_to_ship\<close> row, a second
  communication, and the invoices stamped anew.
\<close>

theorem ready_to_ship_twice_accepted:
  "length (completed_rows (committed (run scenario_A_database
       [scenario_A_call Confirm_order 1, scenario_A_call Ready_to_ship 2]))
     42 ''ready_to_ship'') = 1
   \<and> fst (handle Ready_to_ship no_fault 3 scenario_A_request
        (run scenario_A_database
          [scenario_A_call Confirm_order 1, scenario_A_call Ready_to_ship 2]))
       = Response 200 (Success ''Goods marked as ready to ship'' None)
   \<and> length (completed_rows (committed (snd (handle Ready_to_ship no_fault 3 scenario_A_request
        (run scenario_A_database
          [scenario_A_call Confirm_order 1, scenario_A_call Ready_to_ship 2]))))
     42 ''ready_to_ship'') = 2
   \<and> length (communications (committed (run scenario_A_database
       [scenario_A_call Confirm_order 1, scenario_A_call Ready_to_ship 2]))) = 2
   \<and> length (communications (committed (snd (handle Ready_to_ship no_fault 3 scenario_A_request
        (run scenario_A_database
          [scenario_A_call Confirm_order 1, scenario_A_call Ready_to_ship 2]))))) = 3"
  by code_simp

text \<open>
  C1 (the code departs from the claim). Starting from order 42 without milestones, the
  sequence \<open>confirm-order\<close>, \<open>ready-to-ship\<close>, \<open>ready-to-ship\<close> leaves two rows
  for \<open>(42, ready_to_ship)\<close> in the milestones table.
\<close>

theorem two_rows_for_one_type:
  "milestones (committed scenario_A_database) = []
   \<and> map (\<lambda>m. (milestone_orderid m, milestonetype m, status m))
       (milestones (committed (run scenario_A_database
          [scenario_A_call Confirm_order 1, scenario_A_call Ready_to_ship 2,
           scenario_A_call Ready_to_ship 3])))
     = [(42, ''order_confirmed'', ''completed''),
        (42, ''ready_to_ship'', ''completed''),
        (42, ''ready_to_ship'', ''completed'')]"
  by code_simp

subsection \<open>The completed types of an order form a prefix of the chain\<close>

text \<open>
  The half of C1 that holds. Adding to a prefix of a duplicate-free chain the element at
  position \<open>i\<close>, when \<open>i\<close> is 0 or the element before it is already in, gives
  a prefix again.
\<close>

lemma nth_in_take:
  assumes "distinct xs" and "j < length xs" and "xs ! j \<in> set (take n xs)"
  shows "j < n"
proof -
  from assms(3) obtain k where k: "k < length (take n xs)" "take n xs ! k = xs ! j"
    by (auto simp: in_set_conv_nth)
  then have "k < n" "k < length xs" "xs ! k = xs ! j" by simp_all
  with assms(1,2) have "k = j" by (simp add: nth_eq_iff_index_eq)
  with \<open>k < n\<close> show ?thesis by simp
qed

lemma prefix_insert_next:
  assumes "distinct xs" and "n \<le> length xs" and "i < length xs"
      and "i = 0 \<or> xs ! (i - 1) \<in> set (take n xs)"
  shows "\<exists>n' \<le> length xs. insert (xs ! i) (set (take n xs)) = set (take n' xs)"
proof (cases "i < n")
  case True
  with assms(3) have "i < length (take n xs)" by simp
  then have "take n xs ! i \<in> set (take n xs)" by (rule nth_mem)
  with True have "xs ! i \<in> set (take n xs)" by simp
  then have "insert (xs ! i) (set (take n xs)) = set (take n xs)" by (rule insert_absorb)
  with assms(2) show ?thesis by blast
next
  case False
  have "i \<le> n"
  proof (cases "i = 0")
    case True
    then show ?thesis by simp
  next
    case False
    with assms(4) have mem: "xs ! (i - 1) \<in> set (take n xs)" by simp
    from assms(3) have "i - 1 < length xs" by simp
    with assms(1) have "i - 1 < n" using mem by (rule nth_in_take)
    with False show ?thesis by simp
  qed
  with False have eq: "n = i" by simp
  from assms(3) have "take (Suc i) xs = take i xs @ [xs ! i]"
    by (rule take_Suc_conv_app_nth)
  then have "set (take (Suc i) xs) = insert (xs ! i) (set (take i xs))"
    by simp
  moreover from assms(3) have "Suc i \<le> length xs" by simp
  ultimately have "Suc i \<le> length xs \<and> insert (xs ! i) (set (take i xs)) = set (take (Suc i) xs)"
    by simp
  then show ?thesis unfolding eq by (rule exI)
qed

lemma position_chain:
  "position a < length canonical_chain"
  "canonical_chain ! position a = milestone_type a"
  "predecessor a = (if position a = 0 then None else Some (canonical_chain ! (position a - 1)))"
  by (cases a; simp add: canonical_chain_def)+

lemma distinct_canonical_chain: "distinct canonical_chain"
  by (simp add: canonical_chain_def)

lemma completed_types_append:
  assumes "milestones t' = milestones t @ [m]"
  shows "completed_types t' oid
       = (if milestone_orderid m = oid \<and> status m = ''completed''
          then insert (milestonetype m) (completed_types t oid)
          else completed_types t oid)"
  using assms by (auto simp: completed_types_def intro: rev_image_eqI)

lemma completed_types_transition:
  assumes "transition a oid' uid now t t'"
  shows "completed_types t' oid
       = (if oid' = oid then insert (milestone_type a) (completed_types t oid)
          else completed_types t oid)"
proof -
  from assms obtain m where "milestones t' = milestones t @ [m]"
    "milestone_orderid m = oid'" "milestonetype m = milestone_type a" "status m = ''completed''"
    unfolding transition_def by blast
  then show ?thesis by (simp add: completed_types_append)
qed

lemma enabled_predecessor_completed:
  assumes "enabled a oid t" and "predecessor a = Some p"
  shows "p \<in> completed_types t oid"
proof -
  from assms have "completed_rows t oid p \<noteq> []" by (simp add: enabled_def)
  then obtain m where "m \<in> set (completed_rows t oid p)"
    by (cases "completed_rows t oid p") auto
  then show ?thesis
    by (auto simp: completed_rows_def rows_of_def completed_types_def)
qed

lemma handle_keeps_prefix:
  assumes "contiguous_prefix (completed_types (committed d) oid)"
  shows "contiguous_prefix (completed_types (committed (snd (handle a fault now req d))) oid)"
proof -
  obtain res d' where run: "handle a fault now req d = (res, d')"
    by (cases "handle a fault now req d")
  from handle_outcome [OF run] show ?thesis
  proof (elim disjE conjE exE)
    assume "committed d' = committed d"
    with assms run show ?thesis by simp
  next
    fix oid' uid
    assume en: "enabled a oid' (committed d)"
       and tr: "transition a oid' uid now (committed d) (committed d')"
    show ?thesis
    proof (cases "oid' = oid")
      case False
      with tr assms run show ?thesis by (simp add: completed_types_transition)
    next
      case True
      with tr have new: "completed_types (committed d') oid
          = insert (milestone_type a) (completed_types (committed d) oid)"
        by (simp add: completed_types_transition)
      have pre: "\<And>p. predecessor a = Some p \<Longrightarrow> p \<in> completed_types (committed d) oid"
        using en True enabled_predecessor_completed by blast
      from assms obtain n where n: "n \<le> length canonical_chain"
        "completed_types (committed d) oid = set (take n canonical_chain)"
        unfolding contiguous_prefix_def by blast
      have "position a = 0 \<or> canonical_chain ! (position a - 1) \<in> set (take n canonical_chain)"
      proof (cases "position a = 0")
        case True
        then show ?thesis by simp
      next
        case False
        then have "predecessor a = Some (canonical_chain ! (position a - 1))"
          by (simp add: position_chain(3))
        then have "canonical_chain ! (position a - 1) \<in> completed_types (committed d) oid"
          by (rule pre)
        with n(2) show ?thesis by simp
      qed
      with distinct_canonical_chain n(1) position_chain(1)
      have "\<exists>n' \<le> length canonical_chain.
              insert (canonical_chain ! position a) (set (take n canonical_chain))
                = set (take n' canonical_chain)"
        by (rule prefix_insert_next)
      with new n(2) have "contiguous_prefix (completed_types (committed d') oid)"
        by (simp add: contiguous_prefix_def position_chain(2))
      with run show ?thesis by simp
    qed
  qed
qed

lemma run_keeps_prefix:
  assumes "contiguous_prefix (completed_types (committed d) oid)"
  shows "contiguous_prefix (completed_types (committed (run d calls)) oid)"
  using assms
proof (induction calls arbitrary: d)
  case Nil
  then show ?case by simp
next
  case (Cons x xs)
  from Cons.prems have "contiguous_prefix (completed_types (committed
      (snd (handle (call_action x) (call_fault x) (call_now x) (call_request x) d))) oid)"
    by (rule handle_keeps_prefix)
  then show ?case by (simp add: Cons.IH)
qed

text \<open>
  From an order without milestones, after any sequence of calls of the five endpoints
  (for this order or others, by any users, with any rejections), the set of types the
  order has completed is a contiguous prefix of the canonical chain.
\<close>

lemma completed_types_prefix:
  assumes "\<forall>m \<in> set (milestones (committed d)). milestone_orderid m \<noteq> oid"
  shows "contiguous_prefix (completed_types (committed (run d calls)) oid)"
proof -
  from assms have "completed_types (committed d) oid = {}"
    by (auto simp: completed_types_def)
  then have "completed_types (committed d) oid = set (take 0 canonical_chain)"
    by simp
  then have "contiguous_prefix (completed_types (committed d) oid)"
    unfolding contiguous_prefix_def by blast
  then show ?thesis by (rule run_keeps_prefix)
qed


end
